theory Spec2Isabelle
  imports Main "HOL-Library.AList" "HOL-Library.Sublist"
begin

section \<open>JavaScript values\<close>

text \<open>
  The plugin is a TypeScript module (compiled to JavaScript). Its parameter object is typed
  by the declarations of the package, so it is a record here; every property may be left
  out by a JavaScript caller, so every field is an option (\<open>None\<close> is \<open>undefined\<close>).
  The request objects handed to the vendor SDK are built property by property, so they are
  association lists from property names to JavaScript values.
\<close>

text \<open>
  A file of the stream is a vinyl file as gulp hands it over: it has a path, and its
  contents are absent (\<open>isNull\<close>), a stream (\<open>isStream\<close>) or a buffer.
\<close>

datatype vinyl_contents = NullContents | StreamContents | BufferContents string

record vinyl =
  path :: string
  contents :: vinyl_contents

datatype js_value =
    Undefined
  | Null
  | Str string
  | Num int
  | Bool bool
  | FileContents vinyl_contents
  | Arr "js_value list"
  | Obj "(string \<times> js_value) list"

type_synonym js_object = "(string \<times> js_value) list"

text \<open>Truthiness as \<open>if (v)\<close>, \<open>!v\<close>, \<open>a && b\<close> and \<open>a || b\<close> decide it.\<close>

fun truthy :: "js_value \<Rightarrow> bool" where
  "truthy Undefined = False"
| "truthy Null = False"
| "truthy (Str s) = (s \<noteq> [])"
| "truthy (Num n) = (n \<noteq> 0)"
| "truthy (Bool b) = b"
| "truthy (FileContents c) = True"
| "truthy (Arr vs) = True"
| "truthy (Obj kvs) = True"

definition js_or :: "js_value \<Rightarrow> js_value \<Rightarrow> js_value" where
  "js_or a b = (if truthy a then a else b)"

fun typeof_string :: "js_value \<Rightarrow> bool" where
  "typeof_string (Str s) = True"
| "typeof_string v = False"

definition js_str :: "string option \<Rightarrow> js_value" where
  "js_str v = (case v of None \<Rightarrow> Undefined | Some s \<Rightarrow> Str s)"

definition js_num :: "int option \<Rightarrow> js_value" where
  "js_num v = (case v of None \<Rightarrow> Undefined | Some n \<Rightarrow> Num n)"

definition js_bool :: "bool option \<Rightarrow> js_value" where
  "js_bool v = (case v of None \<Rightarrow> Undefined | Some b \<Rightarrow> Bool b)"

text \<open>\<open>obj.k = v\<close> on a request object, and the two ways of reading one.\<close>

definition set_field :: "string \<Rightarrow> js_value \<Rightarrow> js_object \<Rightarrow> js_object" where
  "set_field k v obj = AList.update k v obj"

definition has_field :: "string \<Rightarrow> js_object \<Rightarrow> bool" where
  "has_field k obj = (map_of obj k \<noteq> None)"

definition get_field :: "string \<Rightarrow> js_object \<Rightarrow> js_value" where
  "get_field k obj = (case map_of obj k of None \<Rightarrow> Undefined | Some v \<Rightarrow> v)"

text \<open>
  \<open>s.slice(-n)\<close> for a positive \<open>n\<close>: the last \<open>n\<close> characters, the whole string when it is
  shorter. The comparison with \<open>'.zip'\<close> only involves ASCII characters, so counting bytes
  instead of UTF-16 units gives the same answer.
\<close>

definition slice_from_end :: "nat \<Rightarrow> string \<Rightarrow> string" where
  "slice_from_end n s = drop (length s - n) s"

section \<open>Parameters and options\<close>

record s3_location =
  bucket :: "string option"
  key :: "string option"

text \<open>
  \<open>subnets\<close> and \<open>securityGroups\<close> are a string or an array of strings. The properties
  \<open>alias\<close> and \<open>file\<close> of the parameters are the fields \<open>alias_p\<close> and \<open>file_p\<close>: the
  plain names are keywords of Isabelle.
\<close>

datatype id_list = IdString string | IdArray "string list"

record params =
  functionName :: "string option"
  role :: "string option"
  s3 :: "s3_location option"
  alias_p :: "string option"
  publish :: "bool option"
  file_p :: "vinyl option"
  handler :: "string option"
  runtime :: "string option"
  memory :: "int option"
  description :: "string option"
  timeout :: "int option"
  subnets :: "id_list option"
  securityGroups :: "id_list option"

record options =
  region :: "string option"
  profile :: "string option"

definition js_ids :: "id_list option \<Rightarrow> js_value" where
  "js_ids v = (case v of None \<Rightarrow> Undefined
               | Some (IdString s) \<Rightarrow> Str s
               | Some (IdArray xs) \<Rightarrow> Arr (map Str xs))"

definition DEFAULT_PARAMS_handler :: js_value where
  "DEFAULT_PARAMS_handler = Str ''index.handler''"

definition DEFAULT_PARAMS_runtime :: js_value where
  "DEFAULT_PARAMS_runtime = Str ''nodejs14.x''"

section \<open>Errors\<close>

text \<open>
  What can be thrown, or reject a promise: an error object of the SDK (its code, and its
  message, which the SDK leaves out when the response carries none), the \<open>TypeError\<close> of a
  property read on \<open>undefined\<close>, a plain \<open>Error\<close>, and the \<open>PluginError\<close> of the build
  tool (the name of the plugin and the message).
\<close>

datatype js_error =
    AWSError string "string option"
  | TypeError string
  | Error string
  | PluginError string string

fun message :: "js_error \<Rightarrow> string option" where
  "message (AWSError c m) = m"
| "message (TypeError m) = Some m"
| "message (Error m) = Some m"
| "message (PluginError pl m) = Some m"

text \<open>
  The constructor \<open>new PluginError(plugin, message)\<close> belongs to the build tool's library, not
  to the repository: it throws when the plugin name or the message is missing or empty
  (\<open>Inl\<close> is what it throws, \<open>Inr\<close> the error object it builds).
\<close>

definition new_PluginError :: "string \<Rightarrow> string option \<Rightarrow> js_error + js_error" where
  "new_PluginError plugin msg =
     (if plugin = [] then Inl (Error ''Missing plugin name'')
      else (case msg of
              None \<Rightarrow> Inl (Error ''Missing error message'')
            | Some m \<Rightarrow>
                if m = [] then Inl (Error ''Missing error message'')
                else Inr (PluginError plugin m)))"

definition gulpError :: "string option \<Rightarrow> js_error + js_error" where
  "gulpError msg = new_PluginError ''gulp-lambda-deploy'' msg"

text \<open>\<open>throw gulpError(...)\<close>: what is thrown is the error built, or what building it threw.\<close>

definition throw_gulpError :: "string option \<Rightarrow> js_error" where
  "throw_gulpError msg = (case gulpError msg of Inl e \<Rightarrow> e | Inr built \<Rightarrow> built)"

section \<open>The vendor SDK\<close>

text \<open>
  The SDK clients are parameters of the model: each method maps its request to the
  settlement of the promise it returns (\<open>Inl\<close> a rejection). The responses carry the
  properties the plugin reads.
\<close>

record function_configuration =
  FunctionName :: "string option"
  Version :: "string option"

record list_functions_response =
  Functions :: "function_configuration list option"

record alias_configuration =
  AliasArn :: "string option"

record s3_client =
  sdk_putObject :: "js_value \<Rightarrow> js_error + js_value"

record lambda_client =
  sdk_listFunctions :: "js_value \<Rightarrow> js_error + list_functions_response"
  sdk_updateFunctionCode :: "js_value \<Rightarrow> js_error + function_configuration"
  sdk_waitFor :: "string \<Rightarrow> js_value \<Rightarrow> js_error + function_configuration"
  sdk_updateFunctionConfiguration :: "js_value \<Rightarrow> js_error + function_configuration"
  sdk_createFunction :: "js_value \<Rightarrow> js_error + function_configuration"
  sdk_getAlias :: "js_value \<Rightarrow> js_error + alias_configuration option"
  sdk_createAlias :: "js_value \<Rightarrow> js_error + alias_configuration"
  sdk_updateAlias :: "js_value \<Rightarrow> js_error + alias_configuration"

datatype api_op =
    PutObject | ListFunctions | UpdateFunctionCode | WaitFor | UpdateFunctionConfiguration
  | CreateFunction | GetAlias | CreateAlias | UpdateAlias

text \<open>One SDK call of a run: the method, its arguments, and the error it rejected with.\<close>

record sdk_call =
  call_op :: api_op
  call_args :: "js_value list"
  call_error :: "js_error option"

section \<open>Promises\<close>

text \<open>
  A promise is the list of SDK calls issued until it settled, and its settlement. A
  \<open>then\<close> callback runs only when the promise before it resolved, after it.
\<close>

type_synonym 'a promise = "sdk_call list \<times> (js_error + 'a)"

definition resolve :: "'a \<Rightarrow> 'a promise" where
  "resolve v = ([], Inr v)"

definition reject :: "js_error \<Rightarrow> 'a promise" where
  "reject e = ([], Inl e)"

definition andThen :: "'a promise \<Rightarrow> ('a \<Rightarrow> 'b promise) \<Rightarrow> 'b promise" where
  "andThen pr f =
     (case snd pr of
        Inl e \<Rightarrow> (fst pr, Inl e)
      | Inr v \<Rightarrow> (fst pr @ fst (f v), snd (f v)))"

definition request :: "api_op \<Rightarrow> js_value list \<Rightarrow> js_error + 'a \<Rightarrow> 'a promise" where
  "request m as r =
     ([\<lparr>call_op = m, call_args = as,
        call_error = (case r of Inl e \<Rightarrow> Some e | Inr v \<Rightarrow> None)\<rparr>], r)"

section \<open>The deploy steps\<close>

definition s3upload :: "s3_client \<Rightarrow> params \<Rightarrow> js_value promise" where
  "s3upload s3c p =
     (case s3 p of
        None \<Rightarrow> reject (TypeError ''Cannot read properties of undefined (reading 'bucket')'')
      | Some loc \<Rightarrow>
          (case file_p p of
             None \<Rightarrow> reject (TypeError ''Cannot read properties of undefined (reading 'contents')'')
           | Some f \<Rightarrow>
               (let s3params = [(''Bucket'', js_str (bucket loc)),
                                (''Key'', js_str (key loc)),
                                (''Body'', FileContents (contents f))]
                in request PutObject [Obj s3params] (sdk_putObject s3c (Obj s3params)))))"

fun scanFunctions :: "function_configuration list \<Rightarrow> string option \<Rightarrow> bool" where
  "scanFunctions [] targetFunction = False"
| "scanFunctions (f # fs) targetFunction =
     (if FunctionName f = targetFunction then True else scanFunctions fs targetFunction)"

definition hasLambdaFunction :: "lambda_client \<Rightarrow> string option \<Rightarrow> bool promise" where
  "hasLambdaFunction lambda targetFunction =
     andThen
       (andThen (request ListFunctions [Obj []] (sdk_listFunctions lambda (Obj [])))
          (\<lambda>res. resolve (Functions res)))
       (\<lambda>functions.
          case functions of
            None \<Rightarrow> reject (TypeError ''Cannot read properties of undefined (reading 'length')'')
          | Some fs \<Rightarrow> resolve (scanFunctions fs targetFunction))"

definition waitForFunctionUpdated ::
  "lambda_client \<Rightarrow> params \<Rightarrow> function_configuration promise" where
  "waitForFunctionUpdated lambda p =
     (let wparams = [(''FunctionName'', js_str (functionName p))]
      in request WaitFor [Str ''functionUpdated'', Obj wparams]
           (sdk_waitFor lambda ''functionUpdated'' (Obj wparams)))"

text \<open>The \<open>lamparams\<close> object of \<open>updateFunctionCode\<close>; reading \<open>params.file.contents\<close>
  without a file throws.\<close>

definition updateFunctionCode_lamparams :: "params \<Rightarrow> js_error + js_object" where
  "updateFunctionCode_lamparams p =
     (let lamparams = [(''FunctionName'', js_str (functionName p)),
                       (''Publish'', js_bool (publish p))]
      in case s3 p of
           Some loc \<Rightarrow>
             Inr (set_field ''S3Key'' (js_str (key loc))
                   (set_field ''S3Bucket'' (js_str (bucket loc)) lamparams))
         | None \<Rightarrow>
             (case file_p p of
                None \<Rightarrow> Inl (TypeError ''Cannot read properties of undefined (reading 'contents')'')
              | Some f \<Rightarrow> Inr (set_field ''ZipFile'' (FileContents (contents f)) lamparams)))"

definition updateFunctionCode ::
  "lambda_client \<Rightarrow> params \<Rightarrow> function_configuration promise" where
  "updateFunctionCode lambda p =
     (case updateFunctionCode_lamparams p of
        Inl e \<Rightarrow> reject e
      | Inr lamparams \<Rightarrow>
          request UpdateFunctionCode [Obj lamparams]
            (sdk_updateFunctionCode lambda (Obj lamparams)))"

text \<open>The optional settings shared by the configuration update and the creation.\<close>

definition set_memory :: "params \<Rightarrow> js_object \<Rightarrow> js_object" where
  "set_memory p lamparams =
     (if truthy (js_num (memory p)) then set_field ''MemorySize'' (js_num (memory p)) lamparams
      else lamparams)"

definition set_description :: "params \<Rightarrow> js_object \<Rightarrow> js_object" where
  "set_description p lamparams =
     (if truthy (js_str (description p))
      then set_field ''Description'' (js_str (description p)) lamparams
      else lamparams)"

definition set_timeout :: "params \<Rightarrow> js_object \<Rightarrow> js_object" where
  "set_timeout p lamparams =
     (if truthy (js_num (timeout p)) then set_field ''Timeout'' (js_num (timeout p)) lamparams
      else lamparams)"

definition string_or_array :: "js_value \<Rightarrow> js_value" where
  "string_or_array v = (if typeof_string v then Arr [v] else v)"

definition set_vpc :: "params \<Rightarrow> js_object \<Rightarrow> js_object" where
  "set_vpc p lamparams =
     (if truthy (js_ids (subnets p)) \<and> truthy (js_ids (securityGroups p))
      then set_field ''VpcConfig''
             (Obj [(''SubnetIds'', string_or_array (js_ids (subnets p))),
                   (''SecurityGroupIds'', string_or_array (js_ids (securityGroups p)))])
             lamparams
      else lamparams)"

definition updateFunctionConfiguration_lamparams :: "params \<Rightarrow> js_object" where
  "updateFunctionConfiguration_lamparams p =
     set_vpc p (set_timeout p (set_description p (set_memory p
       [(''FunctionName'', js_str (functionName p)),
        (''Role'', js_str (role p)),
        (''Handler'', js_or (js_str (handler p)) DEFAULT_PARAMS_handler),
        (''Runtime'', js_or (js_str (runtime p)) DEFAULT_PARAMS_runtime)])))"

definition updateFunctionConfiguration ::
  "lambda_client \<Rightarrow> params \<Rightarrow> function_configuration promise" where
  "updateFunctionConfiguration lambda p =
     (let lamparams = updateFunctionConfiguration_lamparams p
      in request UpdateFunctionConfiguration [Obj lamparams]
           (sdk_updateFunctionConfiguration lambda (Obj lamparams)))"

definition createFunction_code :: "params \<Rightarrow> js_error + js_object" where
  "createFunction_code p =
     (case s3 p of
        Some loc \<Rightarrow>
          Inr (set_field ''S3Key'' (js_str (key loc))
                (set_field ''S3Bucket'' (js_str (bucket loc)) []))
      | None \<Rightarrow>
          (case file_p p of
             None \<Rightarrow> Inl (TypeError ''Cannot read properties of undefined (reading 'contents')'')
           | Some f \<Rightarrow> Inr (set_field ''ZipFile'' (FileContents (contents f)) [])))"

definition createFunction_lamparams :: "params \<Rightarrow> js_error + js_object" where
  "createFunction_lamparams p =
     (case createFunction_code p of
        Inl e \<Rightarrow> Inl e
      | Inr code \<Rightarrow>
          Inr (set_vpc p (set_timeout p (set_description p (set_memory p
            [(''Code'', Obj code),
             (''FunctionName'', js_str (functionName p)),
             (''Handler'', js_or (js_str (handler p)) DEFAULT_PARAMS_handler),
             (''Runtime'', js_or (js_str (runtime p)) DEFAULT_PARAMS_runtime),
             (''Role'', js_str (role p)),
             (''Publish'', js_bool (publish p))])))))"

definition createFunction ::
  "lambda_client \<Rightarrow> params \<Rightarrow> function_configuration promise" where
  "createFunction lambda p =
     (case createFunction_lamparams p of
        Inl e \<Rightarrow> reject e
      | Inr lamparams \<Rightarrow>
          request CreateFunction [Obj lamparams] (sdk_createFunction lambda (Obj lamparams)))"

definition getAlias :: "lambda_client \<Rightarrow> params \<Rightarrow> alias_configuration option promise" where
  "getAlias lambda p =
     (let lamparams = [(''FunctionName'', js_str (functionName p)),
                       (''Name'', js_str (alias_p p))]
      in request GetAlias [Obj lamparams] (sdk_getAlias lambda (Obj lamparams)))"

definition alias_lamparams :: "string option \<Rightarrow> params \<Rightarrow> js_object" where
  "alias_lamparams version p =
     [(''FunctionName'', js_str (functionName p)),
      (''FunctionVersion'', js_str version),
      (''Name'', js_str (alias_p p))]"

definition createAlias ::
  "lambda_client \<Rightarrow> string option \<Rightarrow> params \<Rightarrow> alias_configuration promise" where
  "createAlias lambda version p =
     (let lamparams = alias_lamparams version p
      in request CreateAlias [Obj lamparams] (sdk_createAlias lambda (Obj lamparams)))"

definition updateAlias ::
  "lambda_client \<Rightarrow> string option \<Rightarrow> params \<Rightarrow> alias_configuration promise" where
  "updateAlias lambda version p =
     (let lamparams = alias_lamparams version p
      in request UpdateAlias [Obj lamparams] (sdk_updateAlias lambda (Obj lamparams)))"

definition upsertAlias ::
  "lambda_client \<Rightarrow> string option \<Rightarrow> params \<Rightarrow> alias_configuration promise" where
  "upsertAlias lambda version p =
     andThen (getAlias lambda p)
       (\<lambda>a. case a of
               None \<Rightarrow> createAlias lambda version p
             | Some existing \<Rightarrow> updateAlias lambda version p)"

section \<open>The stream: \<open>main\<close>, \<open>transform\<close> and \<open>flush\<close>\<close>

text \<open>
  \<open>main\<close> validates its two arguments and returns the stream, which closes over them.
  Loading the credentials and constructing the two SDK clients is the SDK's work and is
  not modelled; neither is logging.
\<close>

record plugin_stream =
  stream_params :: params
  stream_options :: options

definition main :: "params option \<Rightarrow> options option \<Rightarrow> js_error + plugin_stream" where
  "main params_arg options_arg =
     (case params_arg of
        None \<Rightarrow> Inl (throw_gulpError (Some ''No parameters provided''))
      | Some p \<Rightarrow>
          if \<not> truthy (js_str (functionName p))
          then Inl (throw_gulpError (Some ''No Lambda function name provided''))
          else if \<not> truthy (js_str (role p)) then Inl (throw_gulpError (Some ''No Lambda role provided''))
          else
            (case options_arg of
               None \<Rightarrow> Inl (throw_gulpError (Some ''No AWS options provided''))
             | Some opts \<Rightarrow>
                 if \<not> truthy (js_str (region opts))
                 then Inl (throw_gulpError (Some ''No AWS region provided''))
                 else if \<not> truthy (js_str (profile opts))
                 then Inl (throw_gulpError (Some ''No AWS profile provided''))
                 else if (case s3 p of None \<Rightarrow> False
                          | Some loc \<Rightarrow> \<not> truthy (js_str (bucket loc)))
                 then Inl (throw_gulpError (Some ''If uploading via S3, a bucket must be provided''))
                 else if (case s3 p of None \<Rightarrow> False
                          | Some loc \<Rightarrow> \<not> truthy (js_str (key loc)))
                 then Inl (throw_gulpError (Some ''If uploading via S3, a key must be provided''))
                 else if truthy (js_str (alias_p p)) \<and> \<not> truthy (js_bool (publish p))
                 then Inl (throw_gulpError (Some ''An alias was provided but 'publish' was 'false'.''))
                 else Inr \<lparr>stream_params = p, stream_options = opts\<rparr>))"

definition isNull :: "vinyl \<Rightarrow> bool" where
  "isNull f = (contents f = NullContents)"

definition isStream :: "vinyl \<Rightarrow> bool" where
  "isStream f = (contents f = StreamContents)"

text \<open>\<open>transform\<close> keeps the last buffered file in \<open>params.file\<close>.\<close>

definition transform :: "params \<Rightarrow> vinyl \<Rightarrow> js_error + params" where
  "transform p f =
     (if isNull f then Inr p
      else if isStream f then Inl (throw_gulpError (Some ''Stream content is not supported''))
      else Inr (p\<lparr>file_p := Some f\<rparr>))"

text \<open>
  What a flush run did: the SDK calls it issued in order, what it pushed downstream, what
  became of the stream callback (never called, or called: \<open>Called None\<close> for \<open>cb()\<close>,
  \<open>Called (Some e)\<close> for \<open>cb(e)\<close>), and the error nobody caught, if any (thrown out of
  \<open>flush\<close>, or the rejection of its chain left unhandled).
\<close>

datatype callback_state = NotCalled | Called "js_error option"

record flush_result =
  calls :: "sdk_call list"
  pushed :: "vinyl option list"
  callback :: callback_state
  uncaught :: "js_error option"

text \<open>
  \<open>cb(gulpError(msg))\<close>, after the calls issued so far: the callback is called only when the
  error could be built.
\<close>

definition cb_gulpError :: "sdk_call list \<Rightarrow> string option \<Rightarrow> flush_result" where
  "cb_gulpError cs msg =
     (case gulpError msg of
        Inl thrown \<Rightarrow> \<lparr>calls = cs, pushed = [], callback = NotCalled, uncaught = Some thrown\<rparr>
      | Inr built \<Rightarrow>
          \<lparr>calls = cs, pushed = [], callback = Called (Some built), uncaught = None\<rparr>)"

text \<open>
  The local function \<open>done\<close> of \<open>flush\<close>, with the calls issued so far. It runs inside the
  last two callbacks of the chain, so what it throws is a rejection nobody handles.
\<close>

definition flush_done :: "params \<Rightarrow> sdk_call list \<Rightarrow> js_error option \<Rightarrow> flush_result" where
  "flush_done p cs err =
     (case err of
        Some e \<Rightarrow> cb_gulpError cs (message e)
      | None \<Rightarrow> \<lparr>calls = cs, pushed = [file_p p], callback = Called None, uncaught = None\<rparr>)"

text \<open>
  The function update of the third callback, and the chain of \<open>flush\<close>: the steps up to
  the value the source names \<open>upsertedFunction\<close>, then the alias.
\<close>

definition updateFunction ::
  "lambda_client \<Rightarrow> params \<Rightarrow> function_configuration promise" where
  "updateFunction lambda p =
     andThen
       (andThen (updateFunctionCode lambda p) (\<lambda>u. waitForFunctionUpdated lambda p))
       (\<lambda>w. updateFunctionConfiguration lambda p)"

definition upsertedFunction ::
  "s3_client \<Rightarrow> lambda_client \<Rightarrow> params \<Rightarrow> function_configuration promise" where
  "upsertedFunction s3c lambda p =
     andThen
       (andThen
         (andThen (resolve ())
            (\<lambda>u. if s3 p \<noteq> None then andThen (s3upload s3c p) (\<lambda>d. resolve ())
                  else resolve ()))
         (\<lambda>u. hasLambdaFunction lambda (functionName p)))
       (\<lambda>hasFunction.
          if hasFunction then updateFunction lambda p else createFunction lambda p)"

definition flush_chain :: "s3_client \<Rightarrow> lambda_client \<Rightarrow> params \<Rightarrow> unit promise" where
  "flush_chain s3c lambda p =
     andThen (upsertedFunction s3c lambda p)
       (\<lambda>upserted.
          if truthy (js_str (alias_p p))
          then andThen (upsertAlias lambda (Version upserted) p) (\<lambda>a. resolve ())
          else resolve ())"

definition flush :: "s3_client \<Rightarrow> lambda_client \<Rightarrow> params \<Rightarrow> flush_result" where
  "flush s3c lambda p =
     (case file_p p of
        None \<Rightarrow> cb_gulpError [] (Some ''No code provided'')
      | Some f \<Rightarrow>
          if slice_from_end 4 (path f) \<noteq> ''.zip''
          then cb_gulpError [] (Some ''Given file is not a zip'')
          else
            (let pr = flush_chain s3c lambda p
             in case snd pr of
                  Inr u \<Rightarrow> flush_done p (fst pr) None
                | Inl err \<Rightarrow> flush_done p (fst pr) (Some err)))"

definition ops :: "flush_result \<Rightarrow> api_op list" where
  "ops r = map call_op (calls r)"

section \<open>Vocabulary of the properties\<close>

text \<open>The request object among the arguments of a call (\<open>waitFor\<close> takes a state name
  before it).\<close>

fun request_object :: "sdk_call \<Rightarrow> js_object" where
  "request_object c =
     (case call_args c of
        [Obj obj] \<Rightarrow> obj
      | [Str s, Obj obj] \<Rightarrow> obj
      | other \<Rightarrow> [])"

text \<open>Where a call carries the reference to the code: the \<open>Code\<close> property of a creation,
  the request itself of a code update.\<close>

definition code_object :: "sdk_call \<Rightarrow> js_object" where
  "code_object c =
     (if call_op c = CreateFunction
      then (case get_field ''Code'' (request_object c) of Obj code \<Rightarrow> code | other \<Rightarrow> [])
      else request_object c)"

text \<open>The two ways a call refers to the code: by its place in S3, or inline.\<close>

definition code_from_s3 :: "s3_location \<Rightarrow> sdk_call \<Rightarrow> bool" where
  "code_from_s3 loc c \<longleftrightarrow>
     has_field ''S3Bucket'' (code_object c) \<and>
     get_field ''S3Bucket'' (code_object c) = js_str (bucket loc) \<and>
     has_field ''S3Key'' (code_object c) \<and>
     get_field ''S3Key'' (code_object c) = js_str (key loc) \<and>
     \<not> has_field ''ZipFile'' (code_object c)"

definition code_inline :: "vinyl \<Rightarrow> sdk_call \<Rightarrow> bool" where
  "code_inline f c \<longleftrightarrow>
     has_field ''ZipFile'' (code_object c) \<and>
     get_field ''ZipFile'' (code_object c) = FileContents (contents f) \<and>
     \<not> has_field ''S3Bucket'' (code_object c) \<and>
     \<not> has_field ''S3Key'' (code_object c)"

text \<open>The array of ids a VPC setting is sent as: a bare string becomes a one-element array.\<close>

fun wrapped_ids :: "id_list \<Rightarrow> js_value" where
  "wrapped_ids (IdString s) = Arr [Str s]"
| "wrapped_ids (IdArray xs) = Arr (map Str xs)"

text \<open>
  A promise is sequential when every call but its last resolved, and a call that rejected
  settles the promise with its error.
\<close>

definition sequential :: "'a promise \<Rightarrow> bool" where
  "sequential pr \<longleftrightarrow>
     (\<forall>c \<in> set (butlast (fst pr)). call_error c = None) \<and>
     (\<forall>c \<in> set (fst pr). \<forall>e. call_error c = Some e \<longrightarrow> snd pr = Inl e)"

text \<open>A promise is accountable when it only rejects with the error of one of its calls.\<close>

definition accountable :: "'a promise \<Rightarrow> bool" where
  "accountable pr \<longleftrightarrow>
     (\<forall>e. snd pr = Inl e \<longrightarrow> (\<exists>c \<in> set (fst pr). call_error c = Some e))"

text \<open>
  A promise follows a script (a list of SDK methods) when the methods it called are a
  prefix of the script, and the whole script when it resolved.
\<close>

definition follows :: "'a promise \<Rightarrow> api_op list \<Rightarrow> bool" where
  "follows pr script \<longleftrightarrow>
     prefix (map call_op (fst pr)) script \<and>
     (\<not> isl (snd pr) \<longrightarrow> map call_op (fst pr) = script)"

text \<open>
  The script of a run, as the specification words it: the upload when \<open>params.s3\<close> is
  given, the existence check, the update (code, wait, configuration) or the creation, and
  the alias (read, then created or updated) when \<open>params.alias\<close> is given.
\<close>

definition upsert_script :: "lambda_client \<Rightarrow> params \<Rightarrow> api_op list" where
  "upsert_script lambda p =
     (if s3 p \<noteq> None then [PutObject] else []) @ [ListFunctions] @
     (if snd (hasLambdaFunction lambda (functionName p)) = Inr True
      then [UpdateFunctionCode, WaitFor, UpdateFunctionConfiguration]
      else [CreateFunction])"

definition alias_script :: "lambda_client \<Rightarrow> params \<Rightarrow> api_op list" where
  "alias_script lambda p =
     (if truthy (js_str (alias_p p))
      then [GetAlias,
            (case snd (getAlias lambda p) of
               Inr (Some existing) \<Rightarrow> UpdateAlias
             | other \<Rightarrow> CreateAlias)]
      else [])"

section \<open>Example runs\<close>

definition zip_file :: vinyl where
  "zip_file = \<lparr>path = ''dist/package.zip'', contents = BufferContents ''PK''\<rparr>"

definition js_file :: vinyl where
  "js_file = \<lparr>path = ''index.js'', contents = BufferContents ''exports''\<rparr>"

definition basic_params :: params where
  "basic_params =
     \<lparr>functionName = Some ''resize'', role = Some ''arn:role'', s3 = None, alias_p = None,
      publish = None, file_p = Some zip_file, handler = None, runtime = None, memory = None,
      description = None, timeout = None, subnets = None, securityGroups = None\<rparr>"

definition basic_options :: options where
  "basic_options = \<lparr>region = Some ''eu-west-1'', profile = Some ''default''\<rparr>"

definition artifacts :: s3_location where
  "artifacts = \<lparr>bucket = Some ''artifacts'', key = Some ''resize.zip''\<rparr>"

definition deployed :: function_configuration where
  "deployed = \<lparr>FunctionName = Some ''resize'', Version = Some ''7''\<rparr>"

definition unrelated :: function_configuration where
  "unrelated = \<lparr>FunctionName = Some ''thumbnail'', Version = Some ''2''\<rparr>"

definition throttled :: js_error where
  "throttled = AWSError ''TooManyRequestsException'' (Some ''Rate exceeded'')"

definition not_found :: js_error where
  "not_found = AWSError ''ResourceNotFoundException'' (Some ''Cannot find alias'')"

definition s3_ok :: s3_client where
  "s3_ok = \<lparr>sdk_putObject = (\<lambda>req. Inr (Obj []))\<rparr>"

text \<open>A platform where the function and its alias exist and every call resolves.\<close>

definition lambda_existing :: lambda_client where
  "lambda_existing =
     \<lparr>sdk_listFunctions = (\<lambda>req. Inr \<lparr>Functions = Some [unrelated, deployed]\<rparr>),
      sdk_updateFunctionCode = (\<lambda>req. Inr deployed),
      sdk_waitFor = (\<lambda>state req. Inr deployed),
      sdk_updateFunctionConfiguration = (\<lambda>req. Inr deployed),
      sdk_createFunction = (\<lambda>req. Inr deployed),
      sdk_getAlias = (\<lambda>req. Inr (Some \<lparr>AliasArn = Some ''arn:alias''\<rparr>)),
      sdk_createAlias = (\<lambda>req. Inr \<lparr>AliasArn = Some ''arn:alias''\<rparr>),
      sdk_updateAlias = (\<lambda>req. Inr \<lparr>AliasArn = Some ''arn:alias''\<rparr>)\<rparr>"

text \<open>A platform without the function, where reading the alias resolves to nothing.\<close>

definition lambda_fresh :: lambda_client where
  "lambda_fresh =
     lambda_existing
       \<lparr>sdk_listFunctions := (\<lambda>req. Inr \<lparr>Functions = Some [unrelated]\<rparr>),
        sdk_getAlias := (\<lambda>req. Inr None)\<rparr>"

text \<open>The function exists, and the code update is rejected.\<close>

definition lambda_code_rejected :: lambda_client where
  "lambda_code_rejected = lambda_existing\<lparr>sdk_updateFunctionCode := (\<lambda>req. Inl throttled)\<rparr>"

text \<open>The function exists, and reading the alias is rejected.\<close>

definition lambda_alias_rejected :: lambda_client where
  "lambda_alias_rejected = lambda_existing\<lparr>sdk_getAlias := (\<lambda>req. Inl not_found)\<rparr>"

text \<open>The same package, uploaded through S3, published and aliased.\<close>

definition release_params :: params where
  "release_params =
     basic_params\<lparr>s3 := Some artifacts, alias_p := Some ''live'', publish := Some True\<rparr>"

text \<open>The two update calls of the run of \<open>release_params\<close> on the existing platform.\<close>

definition code_update_call :: sdk_call where
  "code_update_call =
     \<lparr>call_op = UpdateFunctionCode,
      call_args = [Obj [(''FunctionName'', Str ''resize''), (''Publish'', Bool True),
                        (''S3Bucket'', Str ''artifacts''), (''S3Key'', Str ''resize.zip'')]],
      call_error = None\<rparr>"

definition configuration_update_call :: sdk_call where
  "configuration_update_call =
     \<lparr>call_op = UpdateFunctionConfiguration,
      call_args = [Obj [(''FunctionName'', Str ''resize''), (''Role'', Str ''arn:role''),
                        (''Handler'', Str ''index.handler''), (''Runtime'', Str ''nodejs14.x'')]],
      call_error = None\<rparr>"

text \<open>The creation call of the run of \<open>basic_params\<close> on the fresh platform.\<close>

definition creation_call :: sdk_call where
  "creation_call =
     \<lparr>call_op = CreateFunction,
      call_args = [Obj [(''Code'', Obj [(''ZipFile'', FileContents (BufferContents ''PK''))]),
                        (''FunctionName'', Str ''resize''), (''Handler'', Str ''index.handler''),
                        (''Runtime'', Str ''nodejs14.x''), (''Role'', Str ''arn:role''),
                        (''Publish'', Undefined)]],
      call_error = None\<rparr>"

text \<open>A function in a VPC, and one with subnets only.\<close>

definition vpc_params :: params where
  "vpc_params =
     basic_params\<lparr>subnets := Some (IdString ''subnet-1''),
                  securityGroups := Some (IdArray [''sg-1'', ''sg-2''])\<rparr>"

definition subnets_only_params :: params where
  "subnets_only_params = basic_params\<lparr>subnets := Some (IdString ''subnet-1'')\<rparr>"

text \<open>A function name that is given, and empty.\<close>

definition unnamed_params :: params where
  "unnamed_params = basic_params\<lparr>functionName := Some []\<rparr>"

text \<open>A release whose buffered file is not a zip.\<close>

definition js_release_params :: params where
  "js_release_params = release_params\<lparr>file_p := Some js_file\<rparr>"

text \<open>The creation call of the run of \<open>release_params\<close> on the fresh platform.\<close>

definition published_creation_call :: sdk_call where
  "published_creation_call =
     \<lparr>call_op = CreateFunction,
      call_args = [Obj [(''Code'', Obj [(''S3Bucket'', Str ''artifacts''),
                                       (''S3Key'', Str ''resize.zip'')]),
                        (''FunctionName'', Str ''resize''), (''Handler'', Str ''index.handler''),
                        (''Runtime'', Str ''nodejs14.x''), (''Role'', Str ''arn:role''),
                        (''Publish'', Bool True)]],
      call_error = None\<rparr>"

text \<open>The function does not exist yet, and neither does the alias: reading it is rejected.\<close>

definition lambda_first_release :: lambda_client where
  "lambda_first_release = lambda_fresh\<lparr>sdk_getAlias := (\<lambda>req. Inl not_found)\<rparr>"

text \<open>The function exists, and the code update is rejected with an error without message.\<close>

definition unknown_error :: js_error where
  "unknown_error = AWSError ''UnknownError'' None"

definition lambda_code_rejected_silently :: lambda_client where
  "lambda_code_rejected_silently =
     lambda_existing\<lparr>sdk_updateFunctionCode := (\<lambda>req. Inl unknown_error)\<rparr>"

text \<open>The same, with an empty message.\<close>

definition empty_error :: js_error where
  "empty_error = AWSError ''UnknownError'' (Some [])"

definition lambda_code_rejected_emptily :: lambda_client where
  "lambda_code_rejected_emptily =
     lambda_existing\<lparr>sdk_updateFunctionCode := (\<lambda>req. Inl empty_error)\<rparr>"

text \<open>The list response lacks its \<open>Functions\<close> property.\<close>

definition lambda_unlisted :: lambda_client where
  "lambda_unlisted = lambda_existing\<lparr>sdk_listFunctions := (\<lambda>req. Inr \<lparr>Functions = None\<rparr>)\<rparr>"

section \<open>Properties of the promise chain\<close>

subsection \<open>Promises\<close>

lemma fst_andThen:
  "fst (andThen pr f) = fst pr @ (case snd pr of Inl e \<Rightarrow> [] | Inr v \<Rightarrow> fst (f v))"
  by (simp add: andThen_def split: sum.splits)

lemma snd_andThen:
  "snd (andThen pr f) = (case snd pr of Inl e \<Rightarrow> Inl e | Inr v \<Rightarrow> snd (f v))"
  by (simp add: andThen_def split: sum.splits)

lemma fst_resolve: "fst (resolve v) = []" and snd_resolve: "snd (resolve v) = Inr v"
  by (simp_all add: resolve_def)

lemma fst_reject: "fst (reject e) = []" and snd_reject: "snd (reject e) = Inl e"
  by (simp_all add: reject_def)

lemma fst_request:
  "fst (request m as r) =
     [\<lparr>call_op = m, call_args = as,
       call_error = (case r of Inl e \<Rightarrow> Some e | Inr v \<Rightarrow> None)\<rparr>]"
  and snd_request: "snd (request m as r) = r"
  by (simp_all add: request_def)

lemmas promise_simps =
  fst_andThen snd_andThen fst_resolve snd_resolve fst_reject snd_reject fst_request snd_request

lemma sequential_resolve: "sequential (resolve v)"
  by (simp add: sequential_def resolve_def)

lemma sequential_reject: "sequential (reject e)"
  by (simp add: sequential_def reject_def)

lemma sequential_request: "sequential (request m as r)"
  by (cases r) (simp_all add: sequential_def request_def)

lemma sequential_resolved:
  assumes "sequential pr" and "snd pr = Inr v" and "c \<in> set (fst pr)"
  shows "call_error c = None"
proof (cases "call_error c")
  case None
  then show ?thesis .
next
  case (Some e)
  with assms have "snd pr = Inl e" by (simp add: sequential_def)
  with assms(2) show ?thesis by simp
qed

lemma sequential_andThen:
  assumes pr: "sequential pr" and f: "\<And>v. snd pr = Inr v \<Longrightarrow> sequential (f v)"
  shows "sequential (andThen pr f)"
proof (cases "snd pr")
  case (Inl e)
  then have "andThen pr f = (fst pr, Inl e)" by (simp add: andThen_def)
  with pr Inl show ?thesis by (simp add: sequential_def)
next
  case (Inr v)
  have all: "\<forall>c \<in> set (fst pr). call_error c = None"
    using sequential_resolved [OF pr Inr] by blast
  have fv: "sequential (f v)" using f Inr by simp
  have eq: "andThen pr f = (fst pr @ fst (f v), snd (f v))"
    using Inr by (simp add: andThen_def)
  have "set (butlast (fst pr @ fst (f v))) \<subseteq> set (fst pr) \<union> set (butlast (fst (f v)))"
    by (auto simp: butlast_append dest: in_set_butlastD)
  with all fv have "\<forall>c \<in> set (butlast (fst pr @ fst (f v))). call_error c = None"
    by (auto simp: sequential_def)
  moreover have "\<forall>c \<in> set (fst pr @ fst (f v)). \<forall>e. call_error c = Some e \<longrightarrow> snd (f v) = Inl e"
    using all fv by (auto simp: sequential_def)
  ultimately show ?thesis by (simp add: eq sequential_def)
qed

lemma follows_resolve: "follows (resolve v) []"
  by (simp add: follows_def resolve_def)

lemma follows_reject: "follows (reject e) script"
  by (simp add: follows_def reject_def)

lemma follows_request: "follows (request m as r) [m]"
  by (simp add: follows_def request_def)

lemma follows_andThen:
  assumes pr: "follows pr xs" and f: "\<And>v. snd pr = Inr v \<Longrightarrow> follows (f v) ys"
  shows "follows (andThen pr f) (xs @ ys)"
proof (cases "snd pr")
  case (Inl e)
  then have "andThen pr f = (fst pr, Inl e)" by (simp add: andThen_def)
  with pr show ?thesis by (simp add: follows_def prefix_prefix)
next
  case (Inr v)
  from pr Inr have xs: "map call_op (fst pr) = xs" by (simp add: follows_def)
  have eq: "andThen pr f = (fst pr @ fst (f v), snd (f v))"
    using Inr by (simp add: andThen_def)
  from f [OF Inr] xs show ?thesis by (simp add: eq follows_def)
qed

subsection \<open>The steps\<close>

lemma scanFunctions_iff:
  "scanFunctions fs t \<longleftrightarrow> (\<exists>fc \<in> set fs. FunctionName fc = t)"
  by (induction fs) auto

lemma snd_hasLambdaFunction:
  "snd (hasLambdaFunction lambda t) =
     (case sdk_listFunctions lambda (Obj []) of
        Inl e \<Rightarrow> Inl e
      | Inr res \<Rightarrow>
          (case Functions res of
             None \<Rightarrow> Inl (TypeError ''Cannot read properties of undefined (reading 'length')'')
           | Some fs \<Rightarrow> Inr (scanFunctions fs t)))"
  by (simp add: hasLambdaFunction_def promise_simps split: sum.splits option.splits)

lemma fst_hasLambdaFunction:
  "fst (hasLambdaFunction lambda t) =
     [\<lparr>call_op = ListFunctions, call_args = [Obj []],
       call_error = (case sdk_listFunctions lambda (Obj []) of
                       Inl e \<Rightarrow> Some e | Inr res \<Rightarrow> None)\<rparr>]"
  by (simp add: hasLambdaFunction_def promise_simps split: sum.splits option.splits)

lemma sequential_s3upload: "sequential (s3upload s3c p)"
  by (simp add: s3upload_def Let_def sequential_request sequential_reject split: option.splits)

lemma sequential_hasLambdaFunction: "sequential (hasLambdaFunction lambda t)"
  unfolding hasLambdaFunction_def
  by (intro sequential_andThen sequential_request sequential_resolve)
     (simp add: sequential_resolve sequential_reject split: option.splits)

lemma sequential_updateFunctionCode: "sequential (updateFunctionCode lambda p)"
  by (simp add: updateFunctionCode_def sequential_request sequential_reject split: sum.splits)

lemma sequential_waitForFunctionUpdated: "sequential (waitForFunctionUpdated lambda p)"
  by (simp add: waitForFunctionUpdated_def Let_def sequential_request)

lemma sequential_updateFunctionConfiguration: "sequential (updateFunctionConfiguration lambda p)"
  by (simp add: updateFunctionConfiguration_def Let_def sequential_request)

lemma sequential_createFunction: "sequential (createFunction lambda p)"
  by (simp add: createFunction_def sequential_request sequential_reject split: sum.splits)

lemma sequential_updateFunction: "sequential (updateFunction lambda p)"
  unfolding updateFunction_def
  by (intro sequential_andThen sequential_updateFunctionCode sequential_waitForFunctionUpdated
      sequential_updateFunctionConfiguration)

lemma sequential_upsertAlias: "sequential (upsertAlias lambda version p)"
  unfolding upsertAlias_def
  by (intro sequential_andThen)
     (simp_all add: getAlias_def createAlias_def updateAlias_def Let_def sequential_request
        split: option.splits)

lemma sequential_upsertedFunction: "sequential (upsertedFunction s3c lambda p)"
  unfolding upsertedFunction_def
  by (intro sequential_andThen sequential_resolve sequential_hasLambdaFunction)
     (auto intro!: sequential_andThen sequential_resolve sequential_s3upload
        sequential_updateFunction sequential_createFunction)

lemma sequential_flush_chain: "sequential (flush_chain s3c lambda p)"
  unfolding flush_chain_def
  by (intro sequential_andThen sequential_upsertedFunction)
     (auto intro!: sequential_andThen sequential_resolve sequential_upsertAlias)


lemma follows_s3upload: "follows (s3upload s3c p) [PutObject]"
  by (simp add: s3upload_def Let_def follows_request follows_reject split: option.splits)

lemma follows_hasLambdaFunction: "follows (hasLambdaFunction lambda t) [ListFunctions]"
proof -
  have "follows (hasLambdaFunction lambda t) (([ListFunctions] @ []) @ [])"
    unfolding hasLambdaFunction_def
    by (intro follows_andThen follows_request follows_resolve)
       (simp add: follows_resolve follows_reject split: option.splits)
  then show ?thesis by simp
qed

lemma follows_updateFunction:
  "follows (updateFunction lambda p) [UpdateFunctionCode, WaitFor, UpdateFunctionConfiguration]"
proof -
  have code: "follows (updateFunctionCode lambda p) [UpdateFunctionCode]"
    by (simp add: updateFunctionCode_def follows_request follows_reject split: sum.splits)
  have wait: "follows (waitForFunctionUpdated lambda p) [WaitFor]"
    by (simp add: waitForFunctionUpdated_def Let_def follows_request)
  have conf: "follows (updateFunctionConfiguration lambda p) [UpdateFunctionConfiguration]"
    by (simp add: updateFunctionConfiguration_def Let_def follows_request)
  have "follows (updateFunction lambda p)
          (([UpdateFunctionCode] @ [WaitFor]) @ [UpdateFunctionConfiguration])"
    unfolding updateFunction_def by (intro follows_andThen code wait conf)
  then show ?thesis by simp
qed

lemma follows_createFunction: "follows (createFunction lambda p) [CreateFunction]"
  by (simp add: createFunction_def follows_request follows_reject split: sum.splits)

lemma follows_upsertAlias:
  "follows (upsertAlias lambda version p)
     [GetAlias, (case snd (getAlias lambda p) of
                   Inr (Some existing) \<Rightarrow> UpdateAlias
                 | other \<Rightarrow> CreateAlias)]"
proof -
  let ?next = "case snd (getAlias lambda p) of
                 Inr (Some existing) \<Rightarrow> UpdateAlias | other \<Rightarrow> CreateAlias"
  have get: "follows (getAlias lambda p) [GetAlias]"
    by (simp add: getAlias_def Let_def follows_request)
  have "follows (upsertAlias lambda version p) ([GetAlias] @ [?next])"
    unfolding upsertAlias_def
    by (intro follows_andThen get)
       (simp add: createAlias_def updateAlias_def Let_def follows_request split: option.splits)
  then show ?thesis by simp
qed

lemma follows_upload:
  "follows (andThen (resolve ())
             (\<lambda>u. if s3 p \<noteq> None then andThen (s3upload s3c p) (\<lambda>d. resolve ())
                   else resolve ()))
     (if s3 p \<noteq> None then [PutObject] else [])"
proof -
  have "follows (andThen (s3upload s3c p) (\<lambda>d. resolve ())) ([PutObject] @ [])"
    by (intro follows_andThen follows_s3upload follows_resolve)
  then have "follows (if s3 p \<noteq> None then andThen (s3upload s3c p) (\<lambda>d. resolve ())
                      else resolve ())
               (if s3 p \<noteq> None then [PutObject] else [])"
    by (simp add: follows_resolve)
  then have "follows (andThen (resolve ())
             (\<lambda>u. if s3 p \<noteq> None then andThen (s3upload s3c p) (\<lambda>d. resolve ())
                   else resolve ()))
     ([] @ (if s3 p \<noteq> None then [PutObject] else []))"
    by (intro follows_andThen follows_resolve)
  then show ?thesis by simp
qed

lemma follows_upsertedFunction:
  "follows (upsertedFunction s3c lambda p) (upsert_script lambda p)"
proof -
  let ?up = "andThen (resolve ())
               (\<lambda>u. if s3 p \<noteq> None then andThen (s3upload s3c p) (\<lambda>d. resolve ())
                     else resolve ())"
  let ?has = "andThen ?up (\<lambda>u. hasLambdaFunction lambda (functionName p))"
  let ?branch = "if snd (hasLambdaFunction lambda (functionName p)) = Inr True
                 then [UpdateFunctionCode, WaitFor, UpdateFunctionConfiguration]
                 else [CreateFunction]"
  have has: "follows ?has ((if s3 p \<noteq> None then [PutObject] else []) @ [ListFunctions])"
    by (intro follows_andThen follows_upload follows_hasLambdaFunction)
  have branch: "follows (if h then updateFunction lambda p else createFunction lambda p) ?branch"
    if "snd ?has = Inr h" for h
  proof -
    from that have "snd (hasLambdaFunction lambda (functionName p)) = Inr h"
      by (simp add: snd_andThen split: sum.splits)
    then show ?thesis
      by (simp add: follows_updateFunction follows_createFunction)
  qed
  have "follows (upsertedFunction s3c lambda p)
          (((if s3 p \<noteq> None then [PutObject] else []) @ [ListFunctions]) @ ?branch)"
    unfolding upsertedFunction_def by (intro follows_andThen has branch)
  then show ?thesis by (simp add: upsert_script_def)
qed

lemma follows_flush_chain:
  "follows (flush_chain s3c lambda p) (upsert_script lambda p @ alias_script lambda p)"
proof -
  have "follows (andThen (upsertAlias lambda version p) (\<lambda>a. resolve ()))
          ([GetAlias, (case snd (getAlias lambda p) of
                         Inr (Some existing) \<Rightarrow> UpdateAlias
                       | other \<Rightarrow> CreateAlias)] @ [])" for version
    by (intro follows_andThen follows_upsertAlias follows_resolve)
  then have "follows (if truthy (js_str (alias_p p))
                      then andThen (upsertAlias lambda version p) (\<lambda>a. resolve ())
                      else resolve ())
               (alias_script lambda p)" for version
    by (simp add: alias_script_def follows_resolve)
  then show ?thesis
    unfolding flush_chain_def by (intro follows_andThen follows_upsertedFunction)
qed

subsection \<open>The run\<close>

lemma slice_zip_suffix: "slice_from_end 4 s = ''.zip'' \<longleftrightarrow> suffix ''.zip'' s"
proof
  assume h: "slice_from_end 4 s = ''.zip''"
  have "s = take (length s - 4) s @ drop (length s - 4) s" by simp
  with h have "s = take (length s - 4) s @ ''.zip''" by (simp add: slice_from_end_def)
  then show "suffix ''.zip'' s" by (metis suffixI)
next
  assume "suffix ''.zip'' s"
  then obtain zs where "s = zs @ ''.zip''" by (auto simp: suffix_def)
  then show "slice_from_end 4 s = ''.zip''" by (simp add: slice_from_end_def)
qed

lemma calls_cb_gulpError: "calls (cb_gulpError cs msg) = cs"
  by (simp add: cb_gulpError_def split: sum.splits)

lemma pushed_cb_gulpError: "pushed (cb_gulpError cs msg) = []"
  by (simp add: cb_gulpError_def split: sum.splits)

lemma gulpError_message:
  "m \<noteq> [] \<Longrightarrow> gulpError (Some m) = Inr (PluginError ''gulp-lambda-deploy'' m)"
  by (simp add: gulpError_def new_PluginError_def)

lemma gulpError_no_message:
  "msg = None \<or> msg = Some [] \<Longrightarrow> gulpError msg = Inl (Error ''Missing error message'')"
  by (auto simp: gulpError_def new_PluginError_def)

lemma cb_gulpError_message:
  "m \<noteq> [] \<Longrightarrow>
   cb_gulpError cs (Some m) =
     \<lparr>calls = cs, pushed = [],
      callback = Called (Some (PluginError ''gulp-lambda-deploy'' m)), uncaught = None\<rparr>"
  by (simp add: cb_gulpError_def gulpError_message)

lemma cb_gulpError_no_message:
  "msg = None \<or> msg = Some [] \<Longrightarrow>
   cb_gulpError cs msg =
     \<lparr>calls = cs, pushed = [], callback = NotCalled,
      uncaught = Some (Error ''Missing error message'')\<rparr>"
  by (simp add: cb_gulpError_def gulpError_no_message)

lemma calls_flush:
  "calls (flush s3c lambda p) =
     (case file_p p of
        None \<Rightarrow> []
      | Some f \<Rightarrow> if suffix ''.zip'' (path f) then fst (flush_chain s3c lambda p) else [])"
  by (simp add: flush_def flush_done_def calls_cb_gulpError Let_def slice_zip_suffix
      split: option.splits sum.splits)

lemma flush_chain_settled:
  assumes "file_p p = Some f" and "suffix ''.zip'' (path f)"
  shows "flush s3c lambda p =
           (case snd (flush_chain s3c lambda p) of
              Inl e \<Rightarrow> cb_gulpError (fst (flush_chain s3c lambda p)) (message e)
            | Inr u \<Rightarrow>
                \<lparr>calls = fst (flush_chain s3c lambda p), pushed = [Some f],
                 callback = Called None, uncaught = None\<rparr>)"
  using assms
  by (simp add: flush_def flush_done_def Let_def slice_zip_suffix split: sum.splits)

lemma callback_flush_done:
  assumes "file_p p = Some f" and "suffix ''.zip'' (path f)"
  shows "callback (flush s3c lambda p) = Called None \<longleftrightarrow>
           \<not> isl (snd (flush_chain s3c lambda p))"
  unfolding flush_chain_settled [OF assms]
  by (cases "snd (flush_chain s3c lambda p)")
     (simp_all add: cb_gulpError_def split: sum.splits)

lemma pushed_flush:
  "pushed (flush s3c lambda p) =
     (case file_p p of
        None \<Rightarrow> []
      | Some f \<Rightarrow>
          if suffix ''.zip'' (path f)
          then (case snd (flush_chain s3c lambda p) of Inl e \<Rightarrow> [] | Inr u \<Rightarrow> [Some f])
          else [])"
  by (simp add: flush_def flush_done_def pushed_cb_gulpError Let_def slice_zip_suffix
      split: option.splits sum.splits)

lemma calls_flush_cases:
  "calls (flush s3c lambda p) = [] \<or> calls (flush s3c lambda p) = fst (flush_chain s3c lambda p)"
  by (simp add: calls_flush split: option.splits)

lemma distinct_script: "distinct (upsert_script lambda p @ alias_script lambda p)"
  by (simp add: upsert_script_def alias_script_def split: sum.splits option.splits)

lemma ops_flush_prefix:
  "prefix (ops (flush s3c lambda p)) (upsert_script lambda p @ alias_script lambda p)"
  using calls_flush_cases [of s3c lambda p] follows_flush_chain [of s3c lambda p]
  by (auto simp: ops_def follows_def)

lemma calls_flush_resolved:
  assumes "Suc i < length (calls (flush s3c lambda p))"
  shows "call_error (calls (flush s3c lambda p) ! i) = None"
proof -
  from assms have eq: "calls (flush s3c lambda p) = fst (flush_chain s3c lambda p)"
    using calls_flush_cases [of s3c lambda p] by auto
  let ?cs = "calls (flush s3c lambda p)"
  from assms have i: "i < length (butlast ?cs)" by simp
  then have "butlast ?cs ! i \<in> set (butlast ?cs)" by (rule nth_mem)
  moreover have "butlast ?cs ! i = ?cs ! i" using i by (rule nth_butlast)
  ultimately have "?cs ! i \<in> set (butlast ?cs)" by simp
  with sequential_flush_chain [of s3c lambda p] show ?thesis
    by (simp add: eq sequential_def)
qed

lemma fst_upsertedFunction:
  "fst (upsertedFunction s3c lambda p) =
     (if s3 p \<noteq> None then fst (s3upload s3c p) else []) @
     (if s3 p \<noteq> None \<and> isl (snd (s3upload s3c p)) then []
      else fst (hasLambdaFunction lambda (functionName p)) @
        (case snd (hasLambdaFunction lambda (functionName p)) of
           Inl e \<Rightarrow> []
         | Inr h \<Rightarrow> if h then fst (updateFunction lambda p) else fst (createFunction lambda p)))"
  by (cases "snd (s3upload s3c p)")
     (simp_all add: upsertedFunction_def promise_simps split: sum.splits)

lemma snd_upsertedFunction:
  "snd (upsertedFunction s3c lambda p) =
     (if s3 p \<noteq> None \<and> isl (snd (s3upload s3c p)) then Inl (projl (snd (s3upload s3c p)))
      else (case snd (hasLambdaFunction lambda (functionName p)) of
              Inl e \<Rightarrow> Inl e
            | Inr h \<Rightarrow> if h then snd (updateFunction lambda p) else snd (createFunction lambda p)))"
  by (cases "snd (s3upload s3c p)")
     (simp_all add: upsertedFunction_def promise_simps split: sum.splits)

lemma fst_flush_chain:
  "fst (flush_chain s3c lambda p) =
     fst (upsertedFunction s3c lambda p) @
     (case snd (upsertedFunction s3c lambda p) of
        Inl e \<Rightarrow> []
      | Inr u \<Rightarrow> if truthy (js_str (alias_p p)) then fst (upsertAlias lambda (Version u) p)
                 else [])"
  by (simp add: flush_chain_def promise_simps split: sum.splits)

lemma snd_flush_chain:
  "snd (flush_chain s3c lambda p) =
     (case snd (upsertedFunction s3c lambda p) of
        Inl e \<Rightarrow> Inl e
      | Inr u \<Rightarrow>
          if truthy (js_str (alias_p p))
          then (case snd (upsertAlias lambda (Version u) p) of
                  Inl e \<Rightarrow> Inl e | Inr a \<Rightarrow> Inr ())
          else Inr ())"
  by (simp add: flush_chain_def promise_simps split: sum.splits)

lemma ops_s3upload: "set (map call_op (fst (s3upload s3c p))) \<subseteq> {PutObject}"
proof -
  have "prefix (map call_op (fst (s3upload s3c p))) [PutObject]"
    using follows_s3upload [of s3c p] by (simp add: follows_def)
  then have "set (map call_op (fst (s3upload s3c p))) \<subseteq> set [PutObject]"
    by (rule set_mono_prefix)
  then show ?thesis by simp
qed

lemma accountable_resolve: "accountable (resolve v)"
  by (simp add: accountable_def resolve_def)

lemma accountable_request: "accountable (request m as r)"
  by (simp add: accountable_def request_def)

lemma accountable_andThen:
  assumes "accountable pr" and "\<And>v. snd pr = Inr v \<Longrightarrow> accountable (f v)"
  shows "accountable (andThen pr f)"
proof (cases "snd pr")
  case (Inl e)
  with assms(1) show ?thesis by (simp add: accountable_def andThen_def)
next
  case (Inr v)
  with assms(2) [OF Inr] show ?thesis by (auto simp: accountable_def andThen_def)
qed

lemma accountable_s3upload:
  "s3 p \<noteq> None \<Longrightarrow> file_p p \<noteq> None \<Longrightarrow> accountable (s3upload s3c p)"
  by (auto simp: s3upload_def Let_def accountable_request)

lemma accountable_hasLambdaFunction:
  assumes "\<And>res. sdk_listFunctions lambda (Obj []) = Inr res \<Longrightarrow> Functions res \<noteq> None"
  shows "accountable (hasLambdaFunction lambda t)"
  unfolding hasLambdaFunction_def
proof (intro accountable_andThen accountable_request accountable_resolve)
  fix v
  assume "snd (andThen (request ListFunctions [Obj []] (sdk_listFunctions lambda (Obj [])))
                (\<lambda>res. resolve (Functions res))) = Inr v"
  then obtain res where "sdk_listFunctions lambda (Obj []) = Inr res" and "v = Functions res"
    by (auto simp: promise_simps split: sum.splits)
  with assms have "v \<noteq> None" by simp
  then show "accountable (case v of
        None \<Rightarrow> reject (TypeError ''Cannot read properties of undefined (reading 'length')'')
      | Some fs \<Rightarrow> resolve (scanFunctions fs t))"
    by (auto simp: accountable_resolve)
qed

lemma updateFunctionCode_lamparams_defined:
  assumes "s3 p \<noteq> None \<or> file_p p \<noteq> None"
  shows "\<exists>lamparams. updateFunctionCode_lamparams p = Inr lamparams"
  using assms
  by (cases "s3 p"; cases "file_p p") (simp_all add: updateFunctionCode_lamparams_def)

lemma createFunction_lamparams_defined:
  assumes "s3 p \<noteq> None \<or> file_p p \<noteq> None"
  shows "\<exists>lamparams. createFunction_lamparams p = Inr lamparams"
  using assms
  by (cases "s3 p"; cases "file_p p")
     (simp_all add: createFunction_lamparams_def createFunction_code_def)

lemma accountable_updateFunction:
  assumes "s3 p \<noteq> None \<or> file_p p \<noteq> None"
  shows "accountable (updateFunction lambda p)"
proof -
  from updateFunctionCode_lamparams_defined [OF assms]
  have "accountable (updateFunctionCode lambda p)"
    by (auto simp: updateFunctionCode_def accountable_request)
  moreover have "accountable (waitForFunctionUpdated lambda p)"
    by (simp add: waitForFunctionUpdated_def Let_def accountable_request)
  moreover have "accountable (updateFunctionConfiguration lambda p)"
    by (simp add: updateFunctionConfiguration_def Let_def accountable_request)
  ultimately show ?thesis
    unfolding updateFunction_def by (intro accountable_andThen)
qed

lemma accountable_createFunction:
  assumes "s3 p \<noteq> None \<or> file_p p \<noteq> None"
  shows "accountable (createFunction lambda p)"
  using createFunction_lamparams_defined [OF assms]
  by (auto simp: createFunction_def accountable_request)

lemma accountable_upsertAlias: "accountable (upsertAlias lambda version p)"
  unfolding upsertAlias_def
  by (intro accountable_andThen)
     (simp_all add: getAlias_def createAlias_def updateAlias_def Let_def accountable_request
        split: option.splits)

lemma accountable_flush_chain:
  assumes buffered: "file_p p \<noteq> None"
    and listed: "\<And>res. sdk_listFunctions lambda (Obj []) = Inr res \<Longrightarrow> Functions res \<noteq> None"
  shows "accountable (flush_chain s3c lambda p)"
proof -
  have "accountable (upsertedFunction s3c lambda p)"
    unfolding upsertedFunction_def
    using buffered
    by (intro accountable_andThen accountable_resolve accountable_hasLambdaFunction listed)
       (auto intro!: accountable_andThen accountable_resolve accountable_s3upload
          accountable_updateFunction accountable_createFunction)
  then show ?thesis
    unfolding flush_chain_def
    by (intro accountable_andThen)
       (auto intro!: accountable_andThen accountable_resolve accountable_upsertAlias)
qed

lemma existing_function_found:
  assumes "sdk_listFunctions lambda (Obj []) = Inr res" and "Functions res = Some fs"
    and "\<exists>fc \<in> set fs. FunctionName fc = t"
  shows "snd (hasLambdaFunction lambda t) = Inr True"
  using assms by (simp add: snd_hasLambdaFunction scanFunctions_iff)

lemma calls_flush_nonempty:
  assumes "calls (flush s3c lambda p) \<noteq> []"
  shows "\<exists>f. file_p p = Some f \<and> suffix ''.zip'' (path f) \<and>
             calls (flush s3c lambda p) = fst (flush_chain s3c lambda p)"
  using assms by (auto simp: calls_flush split: option.splits if_splits)

lemma existence_check_rejected:
  assumes rej: "snd (hasLambdaFunction lambda (functionName p)) = Inl e"
    and mem: "ListFunctions \<in> set (map call_op (fst (flush_chain s3c lambda p)))"
  shows "fst (flush_chain s3c lambda p) =
           (if s3 p \<noteq> None then fst (s3upload s3c p) else []) @
           fst (hasLambdaFunction lambda (functionName p)) \<and>
         snd (flush_chain s3c lambda p) = Inl e"
proof -
  have "\<not> (s3 p \<noteq> None \<and> isl (snd (s3upload s3c p)))"
  proof
    assume "s3 p \<noteq> None \<and> isl (snd (s3upload s3c p))"
    then have "fst (flush_chain s3c lambda p) = fst (s3upload s3c p)"
      by (simp add: fst_flush_chain fst_upsertedFunction snd_upsertedFunction)
    with mem ops_s3upload [of s3c p] show False by auto
  qed
  then have up: "(s3 p \<noteq> None \<and> isl (snd (s3upload s3c p))) = False" by simp
  show ?thesis
    unfolding fst_flush_chain snd_flush_chain fst_upsertedFunction snd_upsertedFunction up
    using rej by simp
qed

lemma map_of_set_field: "map_of (set_field k v obj) = (map_of obj)(k \<mapsto> v)"
  by (simp add: set_field_def update_conv')

lemma has_field_set_field: "has_field k' (set_field k v obj) \<longleftrightarrow> k' = k \<or> has_field k' obj"
  by (simp add: has_field_def map_of_set_field)

lemma get_field_set_field:
  "get_field k' (set_field k v obj) = (if k' = k then v else get_field k' obj)"
  by (simp add: get_field_def map_of_set_field)

lemma map_of_optional:
  "k \<noteq> ''MemorySize'' \<Longrightarrow> map_of (set_memory p obj) k = map_of obj k"
  "k \<noteq> ''Description'' \<Longrightarrow> map_of (set_description p obj) k = map_of obj k"
  "k \<noteq> ''Timeout'' \<Longrightarrow> map_of (set_timeout p obj) k = map_of obj k"
  "k \<noteq> ''VpcConfig'' \<Longrightarrow> map_of (set_vpc p obj) k = map_of obj k"
  by (simp_all add: set_memory_def set_description_def set_timeout_def set_vpc_def
      map_of_set_field)

lemmas object_simps = has_field_def get_field_def map_of_set_field map_of_optional

lemma has_field_set_vpc:
  "has_field ''VpcConfig'' (set_vpc p obj) \<longleftrightarrow>
     truthy (js_ids (subnets p)) \<and> truthy (js_ids (securityGroups p)) \<or>
     has_field ''VpcConfig'' obj"
  by (auto simp: set_vpc_def has_field_set_field)

lemma string_or_array_ids: "string_or_array (js_ids (Some ids)) = wrapped_ids ids"
  by (cases ids) (simp_all add: string_or_array_def js_ids_def)

lemma get_field_set_vpc:
  assumes "truthy (js_ids (subnets p))" and "truthy (js_ids (securityGroups p))"
  shows "\<exists>sn sg. subnets p = Some sn \<and> securityGroups p = Some sg \<and>
           get_field ''VpcConfig'' (set_vpc p obj) =
             Obj [(''SubnetIds'', wrapped_ids sn), (''SecurityGroupIds'', wrapped_ids sg)]"
proof -
  from assms obtain sn sg where "subnets p = Some sn" and "securityGroups p = Some sg"
    by (cases "subnets p"; cases "securityGroups p") (simp_all add: js_ids_def)
  with assms show ?thesis
    by (simp add: set_vpc_def get_field_set_field string_or_array_ids)
qed

lemma publish_updateFunctionCode:
  assumes "updateFunctionCode_lamparams p = Inr lamparams"
  shows "has_field ''Publish'' lamparams \<and> get_field ''Publish'' lamparams = js_bool (publish p)"
  using assms
  by (cases "s3 p"; cases "file_p p")
     (auto simp: updateFunctionCode_lamparams_def object_simps)

lemma publish_createFunction:
  assumes "createFunction_lamparams p = Inr lamparams"
  shows "has_field ''Publish'' lamparams \<and> get_field ''Publish'' lamparams = js_bool (publish p)"
proof -
  from assms obtain code where "lamparams =
      set_vpc p (set_timeout p (set_description p (set_memory p
        [(''Code'', Obj code),
         (''FunctionName'', js_str (functionName p)),
         (''Handler'', js_or (js_str (handler p)) DEFAULT_PARAMS_handler),
         (''Runtime'', js_or (js_str (runtime p)) DEFAULT_PARAMS_runtime),
         (''Role'', js_str (role p)),
         (''Publish'', js_bool (publish p))])))"
    by (auto simp: createFunction_lamparams_def split: sum.splits)
  then show ?thesis
    by (simp add: object_simps)
qed

lemma publish_updateFunctionConfiguration:
  "\<not> has_field ''Publish'' (updateFunctionConfiguration_lamparams p) \<and>
   get_field ''Publish'' (updateFunctionConfiguration_lamparams p) = Undefined"
  by (simp add: updateFunctionConfiguration_lamparams_def object_simps)

subsection \<open>The calls a run can issue\<close>

lemma in_s3upload:
  assumes "c \<in> set (fst (s3upload s3c p))"
  shows "call_op c = PutObject \<and>
         (\<exists>loc f. s3 p = Some loc \<and> file_p p = Some f \<and>
            call_args c = [Obj [(''Bucket'', js_str (bucket loc)), (''Key'', js_str (key loc)),
                                (''Body'', FileContents (contents f))]])"
  using assms
  by (cases "s3 p"; cases "file_p p")
     (auto simp: s3upload_def request_def reject_def Let_def)

lemma in_hasLambdaFunction:
  assumes "c \<in> set (fst (hasLambdaFunction lambda t))"
  shows "call_op c = ListFunctions \<and> call_args c = [Obj []]"
  using assms by (simp add: fst_hasLambdaFunction)

lemma in_updateFunction:
  assumes "c \<in> set (fst (updateFunction lambda p))"
  shows "(call_op c = UpdateFunctionCode \<and>
          (\<exists>lamparams. updateFunctionCode_lamparams p = Inr lamparams \<and>
             call_args c = [Obj lamparams])) \<or>
         (call_op c = WaitFor \<and>
          call_args c = [Str ''functionUpdated'',
                         Obj [(''FunctionName'', js_str (functionName p))]]) \<or>
         (call_op c = UpdateFunctionConfiguration \<and>
          call_args c = [Obj (updateFunctionConfiguration_lamparams p)])"
proof -
  from assms have "c \<in> set (fst (updateFunctionCode lambda p)) \<or>
      c \<in> set (fst (waitForFunctionUpdated lambda p)) \<or>
      c \<in> set (fst (updateFunctionConfiguration lambda p))"
    by (auto simp: updateFunction_def promise_simps split: sum.splits)
  then show ?thesis
    by (cases "updateFunctionCode_lamparams p")
       (auto simp: updateFunctionCode_def waitForFunctionUpdated_def
          updateFunctionConfiguration_def request_def reject_def Let_def)
qed

lemma in_createFunction:
  assumes "c \<in> set (fst (createFunction lambda p))"
  shows "call_op c = CreateFunction \<and>
         (\<exists>lamparams. createFunction_lamparams p = Inr lamparams \<and>
            call_args c = [Obj lamparams])"
  using assms
  by (cases "createFunction_lamparams p")
     (auto simp: createFunction_def request_def reject_def)

lemma in_upsertAlias:
  assumes "c \<in> set (fst (upsertAlias lambda version p))"
  shows "(call_op c = GetAlias \<and>
          call_args c = [Obj [(''FunctionName'', js_str (functionName p)),
                              (''Name'', js_str (alias_p p))]]) \<or>
         ((call_op c = CreateAlias \<or> call_op c = UpdateAlias) \<and>
          call_args c = [Obj (alias_lamparams version p)])"
  using assms
  by (auto simp: upsertAlias_def getAlias_def createAlias_def updateAlias_def promise_simps
      Let_def split: sum.splits option.splits)

lemma in_upsertedFunction:
  assumes "c \<in> set (fst (upsertedFunction s3c lambda p))"
  shows "c \<in> set (fst (s3upload s3c p)) \<or>
         c \<in> set (fst (hasLambdaFunction lambda (functionName p))) \<or>
         c \<in> set (fst (updateFunction lambda p)) \<or>
         c \<in> set (fst (createFunction lambda p))"
  using assms by (auto simp: fst_upsertedFunction split: if_splits sum.splits)

lemma in_flush_chain:
  assumes "c \<in> set (fst (flush_chain s3c lambda p))"
  shows "c \<in> set (fst (s3upload s3c p)) \<or>
         c \<in> set (fst (hasLambdaFunction lambda (functionName p))) \<or>
         c \<in> set (fst (updateFunction lambda p)) \<or>
         c \<in> set (fst (createFunction lambda p)) \<or>
         (\<exists>u. snd (upsertedFunction s3c lambda p) = Inr u \<and>
              c \<in> set (fst (upsertAlias lambda (Version u) p)))"
proof -
  from assms have "c \<in> set (fst (upsertedFunction s3c lambda p)) \<or>
      (\<exists>u. snd (upsertedFunction s3c lambda p) = Inr u \<and>
           c \<in> set (fst (upsertAlias lambda (Version u) p)))"
    by (auto simp: fst_flush_chain split: sum.splits if_splits)
  then show ?thesis using in_upsertedFunction by blast
qed

lemma in_calls_flush:
  assumes "c \<in> set (calls (flush s3c lambda p))"
  shows "c \<in> set (fst (flush_chain s3c lambda p))"
  using assms calls_flush_cases [of s3c lambda p] by auto

lemma vpc_updateFunctionConfiguration:
  "has_field ''VpcConfig'' (updateFunctionConfiguration_lamparams p) \<longleftrightarrow>
     truthy (js_ids (subnets p)) \<and> truthy (js_ids (securityGroups p))"
  unfolding updateFunctionConfiguration_lamparams_def has_field_set_vpc
  by (simp add: object_simps)

lemma vpc_createFunction:
  assumes "createFunction_lamparams p = Inr lamparams"
  shows "(has_field ''VpcConfig'' lamparams \<longleftrightarrow>
            truthy (js_ids (subnets p)) \<and> truthy (js_ids (securityGroups p))) \<and>
         (\<exists>base. lamparams = set_vpc p base)"
proof -
  from assms obtain code where lp: "lamparams =
      set_vpc p (set_timeout p (set_description p (set_memory p
        [(''Code'', Obj code),
         (''FunctionName'', js_str (functionName p)),
         (''Handler'', js_or (js_str (handler p)) DEFAULT_PARAMS_handler),
         (''Runtime'', js_or (js_str (runtime p)) DEFAULT_PARAMS_runtime),
         (''Role'', js_str (role p)),
         (''Publish'', js_bool (publish p))])))"
    by (auto simp: createFunction_lamparams_def split: sum.splits)
  have "has_field ''VpcConfig'' lamparams \<longleftrightarrow>
            truthy (js_ids (subnets p)) \<and> truthy (js_ids (securityGroups p))"
    unfolding lp has_field_set_vpc by (simp add: object_simps)
  with lp show ?thesis by blast
qed

lemma ops_upsertAlias:
  "set (map call_op (fst (upsertAlias lambda version p))) \<subseteq> {GetAlias, CreateAlias, UpdateAlias}"
  using in_upsertAlias [of _ lambda version p] by auto

lemma ops_hasLambdaFunction:
  "map call_op (fst (hasLambdaFunction lambda t)) = [ListFunctions]"
  by (simp add: fst_hasLambdaFunction)

lemma ops_updateFunction:
  "set (map call_op (fst (updateFunction lambda p))) \<subseteq>
     {UpdateFunctionCode, WaitFor, UpdateFunctionConfiguration}"
  using in_updateFunction [of _ lambda p] by auto

lemma ops_createFunction:
  "set (map call_op (fst (createFunction lambda p))) \<subseteq> {CreateFunction}"
  using in_createFunction [of _ lambda p] by auto

text \<open>The calls of a run that reached the existence check.\<close>

lemma checked_run_shape:
  assumes "ListFunctions \<in> set (ops (flush s3c lambda p))"
  shows "\<exists>U A. calls (flush s3c lambda p) =
            U @ fst (hasLambdaFunction lambda (functionName p)) @
            (case snd (hasLambdaFunction lambda (functionName p)) of
               Inl e \<Rightarrow> []
             | Inr h \<Rightarrow> (if h then fst (updateFunction lambda p)
                         else fst (createFunction lambda p)) @ A) \<and>
          set (map call_op U) \<subseteq> {PutObject} \<and>
          set (map call_op A) \<subseteq> {GetAlias, CreateAlias, UpdateAlias} \<and>
          file_p p \<noteq> None"
proof -
  from assms have "calls (flush s3c lambda p) \<noteq> []" by (auto simp: ops_def)
  from calls_flush_nonempty [OF this] obtain f
    where f: "file_p p = Some f"
      and eq: "calls (flush s3c lambda p) = fst (flush_chain s3c lambda p)"
    by blast
  from assms have mem: "ListFunctions \<in> set (map call_op (fst (flush_chain s3c lambda p)))"
    by (simp add: ops_def eq)
  have "\<not> (s3 p \<noteq> None \<and> isl (snd (s3upload s3c p)))"
  proof
    assume "s3 p \<noteq> None \<and> isl (snd (s3upload s3c p))"
    then have "fst (flush_chain s3c lambda p) = fst (s3upload s3c p)"
      by (simp add: fst_flush_chain fst_upsertedFunction snd_upsertedFunction)
    with mem ops_s3upload [of s3c p] show False by auto
  qed
  then have up: "(s3 p \<noteq> None \<and> isl (snd (s3upload s3c p))) = False" by simp
  let ?U = "if s3 p \<noteq> None then fst (s3upload s3c p) else []"
  let ?A = "case snd (upsertedFunction s3c lambda p) of
              Inl e \<Rightarrow> []
            | Inr u \<Rightarrow> if truthy (js_str (alias_p p))
                       then fst (upsertAlias lambda (Version u) p) else []"
  have "calls (flush s3c lambda p) =
            ?U @ fst (hasLambdaFunction lambda (functionName p)) @
            (case snd (hasLambdaFunction lambda (functionName p)) of
               Inl e \<Rightarrow> []
             | Inr h \<Rightarrow> (if h then fst (updateFunction lambda p)
                         else fst (createFunction lambda p)) @ ?A)"
    unfolding eq fst_flush_chain fst_upsertedFunction snd_upsertedFunction up
    by (simp split: sum.splits)
  moreover have "set (map call_op ?U) \<subseteq> {PutObject}"
    using ops_s3upload [of s3c p] by auto
  moreover have "set (map call_op ?A) \<subseteq> {GetAlias, CreateAlias, UpdateAlias}"
    using ops_upsertAlias [of lambda _ p] by (auto split: sum.splits)
  ultimately show ?thesis using f by blast
qed

text \<open>The three calls of the update, as far as they are issued.\<close>

lemma updateFunction_shape:
  assumes "s3 p \<noteq> None \<or> file_p p \<noteq> None"
  shows "\<exists>c1 c2 c3. call_op c1 = UpdateFunctionCode \<and> call_op c2 = WaitFor \<and>
           call_op c3 = UpdateFunctionConfiguration \<and>
           fst (updateFunction lambda p) =
             (if call_error c1 \<noteq> None then [c1]
              else if call_error c2 \<noteq> None then [c1, c2] else [c1, c2, c3])"
proof -
  from updateFunctionCode_lamparams_defined [OF assms] obtain lamparams
    where lp: "updateFunctionCode_lamparams p = Inr lamparams" by blast
  let ?r1 = "sdk_updateFunctionCode lambda (Obj lamparams)"
  let ?c1 = "\<lparr>call_op = UpdateFunctionCode, call_args = [Obj lamparams],
              call_error = (case ?r1 of Inl e \<Rightarrow> Some e | Inr v \<Rightarrow> None)\<rparr>"
  let ?w = "[(''FunctionName'', js_str (functionName p))]"
  let ?r2 = "sdk_waitFor lambda ''functionUpdated'' (Obj ?w)"
  let ?c2 = "\<lparr>call_op = WaitFor, call_args = [Str ''functionUpdated'', Obj ?w],
              call_error = (case ?r2 of Inl e \<Rightarrow> Some e | Inr v \<Rightarrow> None)\<rparr>"
  let ?l3 = "updateFunctionConfiguration_lamparams p"
  let ?r3 = "sdk_updateFunctionConfiguration lambda (Obj ?l3)"
  let ?c3 = "\<lparr>call_op = UpdateFunctionConfiguration, call_args = [Obj ?l3],
              call_error = (case ?r3 of Inl e \<Rightarrow> Some e | Inr v \<Rightarrow> None)\<rparr>"
  have "fst (updateFunction lambda p) =
             (if call_error ?c1 \<noteq> None then [?c1]
              else if call_error ?c2 \<noteq> None then [?c1, ?c2] else [?c1, ?c2, ?c3])"
    by (simp add: updateFunction_def updateFunctionCode_def lp waitForFunctionUpdated_def
        updateFunctionConfiguration_def promise_simps Let_def split: sum.splits)
  moreover have "call_op ?c1 = UpdateFunctionCode" "call_op ?c2 = WaitFor"
    "call_op ?c3 = UpdateFunctionConfiguration"
    by simp_all
  ultimately show ?thesis by blast
qed

lemma createFunction_shape:
  assumes "s3 p \<noteq> None \<or> file_p p \<noteq> None"
  shows "\<exists>c. call_op c = CreateFunction \<and> fst (createFunction lambda p) = [c]"
  using createFunction_lamparams_defined [OF assms]
  by (auto simp: createFunction_def request_def)

lemma hasLambdaFunction_true_iff:
  "snd (hasLambdaFunction lambda t) = Inr True \<longleftrightarrow>
     (\<exists>res fs. sdk_listFunctions lambda (Obj []) = Inr res \<and> Functions res = Some fs \<and>
        (\<exists>fc \<in> set fs. FunctionName fc = t))"
  by (auto simp: snd_hasLambdaFunction scanFunctions_iff split: sum.splits option.splits)

lemma update_run:
  assumes checked: "ListFunctions \<in> set (ops (flush s3c lambda p))"
    and has: "snd (hasLambdaFunction lambda (functionName p)) = Inr True"
  shows "UpdateFunctionCode \<in> set (ops (flush s3c lambda p)) \<and>
         CreateFunction \<notin> set (ops (flush s3c lambda p)) \<and>
         (UpdateFunctionConfiguration \<in> set (ops (flush s3c lambda p)) \<longleftrightarrow>
            (\<forall>c \<in> set (calls (flush s3c lambda p)).
               call_op c = UpdateFunctionCode \<or> call_op c = WaitFor \<longrightarrow> call_error c = None))"
proof -
  from checked_run_shape [OF checked] has obtain U A
    where cs: "calls (flush s3c lambda p) =
        U @ fst (hasLambdaFunction lambda (functionName p)) @ fst (updateFunction lambda p) @ A"
      and U: "set (map call_op U) \<subseteq> {PutObject}"
      and A: "set (map call_op A) \<subseteq> {GetAlias, CreateAlias, UpdateAlias}"
      and f: "file_p p \<noteq> None"
    by auto
  from f updateFunction_shape [of p lambda] obtain c1 c2 c3
    where c: "call_op c1 = UpdateFunctionCode" "call_op c2 = WaitFor"
      "call_op c3 = UpdateFunctionConfiguration"
      and upd: "fst (updateFunction lambda p) =
             (if call_error c1 \<noteq> None then [c1]
              else if call_error c2 \<noteq> None then [c1, c2] else [c1, c2, c3])"
    by blast
  have L: "map call_op (fst (hasLambdaFunction lambda (functionName p))) = [ListFunctions]"
    by (rule ops_hasLambdaFunction)
  have notU: "\<And>x. x \<in> set U \<Longrightarrow> call_op x = PutObject" using U by auto
  have notA: "\<And>x. x \<in> set A \<Longrightarrow> call_op x \<in> {GetAlias, CreateAlias, UpdateAlias}"
    using A by auto
  have notL: "\<And>x. x \<in> set (fst (hasLambdaFunction lambda (functionName p))) \<Longrightarrow>
      call_op x = ListFunctions"
    by (simp add: fst_hasLambdaFunction)
  show ?thesis
    unfolding ops_def cs upd using c
    by (auto dest!: notU notA notL)
qed

lemma create_run:
  assumes checked: "ListFunctions \<in> set (ops (flush s3c lambda p))"
    and has: "snd (hasLambdaFunction lambda (functionName p)) = Inr False"
  shows "CreateFunction \<in> set (ops (flush s3c lambda p)) \<and>
         UpdateFunctionCode \<notin> set (ops (flush s3c lambda p)) \<and>
         UpdateFunctionConfiguration \<notin> set (ops (flush s3c lambda p))"
proof -
  from checked_run_shape [OF checked] has obtain U A
    where cs: "calls (flush s3c lambda p) =
        U @ fst (hasLambdaFunction lambda (functionName p)) @ fst (createFunction lambda p) @ A"
      and U: "set (map call_op U) \<subseteq> {PutObject}"
      and A: "set (map call_op A) \<subseteq> {GetAlias, CreateAlias, UpdateAlias}"
      and f: "file_p p \<noteq> None"
    by auto
  from f createFunction_shape [of p lambda] obtain c
    where c: "call_op c = CreateFunction" and cr: "fst (createFunction lambda p) = [c]"
    by blast
  have notU: "\<And>x. x \<in> set U \<Longrightarrow> call_op x = PutObject" using U by auto
  have notA: "\<And>x. x \<in> set A \<Longrightarrow> call_op x \<in> {GetAlias, CreateAlias, UpdateAlias}"
    using A by auto
  have notL: "\<And>x. x \<in> set (fst (hasLambdaFunction lambda (functionName p))) \<Longrightarrow>
      call_op x = ListFunctions"
    by (simp add: fst_hasLambdaFunction)
  show ?thesis
    unfolding ops_def cs cr using c
    by (auto dest!: notU notA notL)
qed

lemma rejected_check_run:
  assumes checked: "ListFunctions \<in> set (ops (flush s3c lambda p))"
    and has: "snd (hasLambdaFunction lambda (functionName p)) = Inl e"
  shows "set (ops (flush s3c lambda p)) \<subseteq> {PutObject, ListFunctions}"
proof -
  from checked_run_shape [OF checked] has obtain U
    where cs: "calls (flush s3c lambda p) =
        U @ fst (hasLambdaFunction lambda (functionName p))"
      and U: "set (map call_op U) \<subseteq> {PutObject}"
    by auto
  then show ?thesis
    unfolding ops_def cs by (auto simp: fst_hasLambdaFunction)
qed

lemma lambda_call_after_check:
  assumes x: "x \<in> set (ops (flush s3c lambda p))" and "x \<noteq> PutObject"
  shows "ListFunctions \<in> set (ops (flush s3c lambda p))"
proof -
  from x have "calls (flush s3c lambda p) \<noteq> []" by (auto simp: ops_def)
  from calls_flush_nonempty [OF this]
  have eq: "calls (flush s3c lambda p) = fst (flush_chain s3c lambda p)" by blast
  show ?thesis
  proof (cases "s3 p \<noteq> None \<and> isl (snd (s3upload s3c p))")
    case True
    then have "fst (flush_chain s3c lambda p) = fst (s3upload s3c p)"
      by (simp add: fst_flush_chain fst_upsertedFunction snd_upsertedFunction)
    with x eq ops_s3upload [of s3c p] assms(2) show ?thesis by (auto simp: ops_def)
  next
    case False
    then have up: "(s3 p \<noteq> None \<and> isl (snd (s3upload s3c p))) = False" by simp
    show ?thesis
      unfolding ops_def eq fst_flush_chain fst_upsertedFunction up
      by (simp add: fst_hasLambdaFunction)
  qed
qed

lemma distinct_ops_flush: "distinct (ops (flush s3c lambda p))"
proof -
  from ops_flush_prefix [of s3c lambda p] obtain zs
    where "upsert_script lambda p @ alias_script lambda p = ops (flush s3c lambda p) @ zs"
    by (auto simp: prefix_def)
  with distinct_script [of lambda p] have "distinct (ops (flush s3c lambda p) @ zs)" by simp
  then show ?thesis by simp
qed

lemma calls_flush_valid:
  assumes "file_p p = Some f" and "suffix ''.zip'' (path f)"
  shows "calls (flush s3c lambda p) = fst (flush_chain s3c lambda p)"
  using assms by (simp add: calls_flush)

lemma code_updateFunctionCode:
  assumes "updateFunctionCode_lamparams p = Inr lamparams"
    and "call_op c = UpdateFunctionCode" and "call_args c = [Obj lamparams]"
  shows "(\<forall>loc. s3 p = Some loc \<longrightarrow> code_from_s3 loc c) \<and>
         (\<forall>f. s3 p = None \<and> file_p p = Some f \<longrightarrow> code_inline f c)"
  using assms
  by (cases "s3 p"; cases "file_p p")
     (auto simp: updateFunctionCode_lamparams_def code_from_s3_def code_inline_def
        code_object_def object_simps)

lemma code_createFunction:
  assumes "createFunction_lamparams p = Inr lamparams"
    and "call_op c = CreateFunction" and "call_args c = [Obj lamparams]"
  shows "(\<forall>loc. s3 p = Some loc \<longrightarrow> code_from_s3 loc c) \<and>
         (\<forall>f. s3 p = None \<and> file_p p = Some f \<longrightarrow> code_inline f c)"
proof -
  from assms(1) obtain code where code: "createFunction_code p = Inr code"
    and lp: "lamparams =
      set_vpc p (set_timeout p (set_description p (set_memory p
        [(''Code'', Obj code),
         (''FunctionName'', js_str (functionName p)),
         (''Handler'', js_or (js_str (handler p)) DEFAULT_PARAMS_handler),
         (''Runtime'', js_or (js_str (runtime p)) DEFAULT_PARAMS_runtime),
         (''Role'', js_str (role p)),
         (''Publish'', js_bool (publish p))])))"
    by (auto simp: createFunction_lamparams_def split: sum.splits)
  have "get_field ''Code'' lamparams = Obj code"
    unfolding lp by (simp add: object_simps)
  with assms(2,3) have obj: "code_object c = code"
    by (simp add: code_object_def)
  from code show ?thesis
    unfolding code_from_s3_def code_inline_def obj
    by (cases "s3 p"; cases "file_p p") (auto simp: createFunction_code_def object_simps)
qed

lemma truthy_js_str: "truthy (js_str v) \<longleftrightarrow> v \<noteq> None \<and> v \<noteq> Some []"
  by (cases v) (simp_all add: js_str_def)

lemma truthy_js_bool: "truthy (js_bool v) \<longleftrightarrow> v = Some True"
  by (cases v) (simp_all add: js_bool_def)

lemma fst_upsertAlias:
  "fst (upsertAlias lambda version p) =
     (let greq = Obj [(''FunctionName'', js_str (functionName p)), (''Name'', js_str (alias_p p))]
      in case sdk_getAlias lambda greq of
           Inl e \<Rightarrow> [\<lparr>call_op = GetAlias, call_args = [greq], call_error = Some e\<rparr>]
         | Inr None \<Rightarrow>
             [\<lparr>call_op = GetAlias, call_args = [greq], call_error = None\<rparr>,
              \<lparr>call_op = CreateAlias, call_args = [Obj (alias_lamparams version p)],
               call_error = (case sdk_createAlias lambda (Obj (alias_lamparams version p)) of
                               Inl e \<Rightarrow> Some e | Inr v \<Rightarrow> None)\<rparr>]
         | Inr (Some existing) \<Rightarrow>
             [\<lparr>call_op = GetAlias, call_args = [greq], call_error = None\<rparr>,
              \<lparr>call_op = UpdateAlias, call_args = [Obj (alias_lamparams version p)],
               call_error = (case sdk_updateAlias lambda (Obj (alias_lamparams version p)) of
                               Inl e \<Rightarrow> Some e | Inr v \<Rightarrow> None)\<rparr>])"
  by (simp add: upsertAlias_def getAlias_def createAlias_def updateAlias_def promise_simps
      Let_def split: sum.splits option.splits)

lemma ops_upsertedFunction:
  assumes "c \<in> set (fst (upsertedFunction s3c lambda p))"
  shows "call_op c \<noteq> GetAlias \<and> call_op c \<noteq> CreateAlias \<and> call_op c \<noteq> UpdateAlias"
proof -
  from in_upsertedFunction [OF assms] consider
      (upload) "c \<in> set (fst (s3upload s3c p))"
    | (check) "c \<in> set (fst (hasLambdaFunction lambda (functionName p)))"
    | (update) "c \<in> set (fst (updateFunction lambda p))"
    | (create) "c \<in> set (fst (createFunction lambda p))"
    by blast
  then show ?thesis
  proof cases
    case upload
    from in_s3upload [OF this] show ?thesis by simp
  next
    case check
    from in_hasLambdaFunction [OF this] show ?thesis by simp
  next
    case update
    from in_updateFunction [OF this] show ?thesis by auto
  next
    case create
    from in_createFunction [OF this] show ?thesis by simp
  qed
qed

lemma waitFor_call:
  assumes "c \<in> set (calls (flush s3c lambda p))" and "call_op c = WaitFor"
  shows "call_args c = [Str ''functionUpdated'',
                        Obj [(''FunctionName'', js_str (functionName p))]]"
proof -
  from assms(1) have "c \<in> set (fst (flush_chain s3c lambda p))" by (rule in_calls_flush)
  from in_flush_chain [OF this] consider
      (upload) "c \<in> set (fst (s3upload s3c p))"
    | (check) "c \<in> set (fst (hasLambdaFunction lambda (functionName p)))"
    | (update) "c \<in> set (fst (updateFunction lambda p))"
    | (create) "c \<in> set (fst (createFunction lambda p))"
    | (upsert) version where "c \<in> set (fst (upsertAlias lambda version p))"
    by blast
  then show ?thesis
  proof cases
    case upload
    from in_s3upload [OF this] assms(2) show ?thesis by simp
  next
    case check
    from in_hasLambdaFunction [OF this] assms(2) show ?thesis by simp
  next
    case update
    from in_updateFunction [OF this] assms(2) show ?thesis by auto
  next
    case create
    from in_createFunction [OF this] assms(2) show ?thesis by simp
  next
    case upsert
    from in_upsertAlias [OF this] assms(2) show ?thesis by auto
  qed
qed

lemma updateFunctionCode_shape:
  assumes "s3 p \<noteq> None \<or> file_p p \<noteq> None"
  shows "\<exists>c lamparams. fst (updateFunctionCode lambda p) = [c] \<and>
           call_op c = UpdateFunctionCode \<and> call_args c = [Obj lamparams] \<and>
           updateFunctionCode_lamparams p = Inr lamparams"
  using updateFunctionCode_lamparams_defined [OF assms]
  by (auto simp: updateFunctionCode_def request_def)

lemma createFunction_request_shape:
  assumes "s3 p \<noteq> None \<or> file_p p \<noteq> None"
  shows "\<exists>c lamparams. fst (createFunction lambda p) = [c] \<and>
           call_op c = CreateFunction \<and> call_args c = [Obj lamparams] \<and>
           createFunction_lamparams p = Inr lamparams"
  using createFunction_lamparams_defined [OF assms]
  by (auto simp: createFunction_def request_def)

lemma publish_call:
  assumes "c \<in> set (calls (flush s3c lambda p))"
  shows "(has_field ''Publish'' (request_object c) \<longleftrightarrow>
            call_op c = CreateFunction \<or> call_op c = UpdateFunctionCode) \<and>
         (has_field ''Publish'' (request_object c) \<longrightarrow>
            get_field ''Publish'' (request_object c) = js_bool (publish p)) \<and>
         (truthy (get_field ''Publish'' (request_object c)) \<longleftrightarrow>
            (call_op c = CreateFunction \<or> call_op c = UpdateFunctionCode) \<and>
            publish p = Some True)"
proof -
  from assms have c: "c \<in> set (fst (flush_chain s3c lambda p))" by (rule in_calls_flush)
  have flag: "truthy (js_bool (publish p)) \<longleftrightarrow> publish p = Some True"
    by (cases "publish p") (simp_all add: js_bool_def)
  from in_flush_chain [OF c] consider
      (upload) "c \<in> set (fst (s3upload s3c p))"
    | (check) "c \<in> set (fst (hasLambdaFunction lambda (functionName p)))"
    | (update) "c \<in> set (fst (updateFunction lambda p))"
    | (create) "c \<in> set (fst (createFunction lambda p))"
    | (upsert) version where "c \<in> set (fst (upsertAlias lambda version p))"
    by blast
  then show ?thesis
  proof cases
    case upload
    from in_s3upload [OF this] show ?thesis
      by (auto simp: has_field_def get_field_def)
  next
    case check
    from in_hasLambdaFunction [OF this] show ?thesis
      by (auto simp: has_field_def get_field_def)
  next
    case update
    from in_updateFunction [OF this] show ?thesis
    proof (elim disjE conjE exE)
      fix lamparams
      assume "call_op c = UpdateFunctionCode"
        and "updateFunctionCode_lamparams p = Inr lamparams"
        and "call_args c = [Obj lamparams]"
      with publish_updateFunctionCode [of p lamparams] flag show ?thesis by simp
    next
      assume "call_op c = WaitFor"
        and "call_args c = [Str ''functionUpdated'',
                            Obj [(''FunctionName'', js_str (functionName p))]]"
      then show ?thesis by (simp add: has_field_def get_field_def)
    next
      assume "call_op c = UpdateFunctionConfiguration"
        and "call_args c = [Obj (updateFunctionConfiguration_lamparams p)]"
      with publish_updateFunctionConfiguration [of p] show ?thesis by simp
    qed
  next
    case create
    from in_createFunction [OF this] publish_createFunction [of p] flag show ?thesis
      by auto
  next
    case upsert
    from in_upsertAlias [OF this] show ?thesis
      by (auto simp: alias_lamparams_def has_field_def get_field_def)
  qed
qed

lemma rejected_call_settles_run:
  assumes c: "c \<in> set (calls (flush s3c lambda p))" and e: "call_error c = Some e"
  shows "flush s3c lambda p = cb_gulpError (fst (flush_chain s3c lambda p)) (message e)"
proof -
  from c have "calls (flush s3c lambda p) \<noteq> []" by auto
  from calls_flush_nonempty [OF this] obtain f
    where f: "file_p p = Some f" "suffix ''.zip'' (path f)"
      and eq: "calls (flush s3c lambda p) = fst (flush_chain s3c lambda p)"
    by blast
  from c e eq sequential_flush_chain [of s3c lambda p]
  have "snd (flush_chain s3c lambda p) = Inl e" by (simp add: sequential_def)
  then show ?thesis by (simp add: flush_chain_settled [OF f])
qed

lemmas run_defs =
  flush_def flush_done_def flush_chain_def upsertedFunction_def updateFunction_def
  upsertAlias_def hasLambdaFunction_def s3upload_def updateFunctionCode_def
  updateFunctionCode_lamparams_def waitForFunctionUpdated_def updateFunctionConfiguration_def
  updateFunctionConfiguration_lamparams_def createFunction_def createFunction_lamparams_def
  createFunction_code_def getAlias_def createAlias_def updateAlias_def alias_lamparams_def
  set_memory_def set_description_def set_timeout_def set_vpc_def string_or_array_def
  set_field_def js_str_def js_num_def js_bool_def js_ids_def js_or_def
  DEFAULT_PARAMS_handler_def DEFAULT_PARAMS_runtime_def gulpError_def new_PluginError_def
  cb_gulpError_def throw_gulpError_def
  request_def resolve_def reject_def andThen_def slice_from_end_def ops_def Let_def

section \<open>Claims\<close>

text \<open>
  C6. A flush run without a buffered file ends with the error \<open>No code provided\<close>, and a
  run whose buffered file has a path that does not end in \<open>.zip\<close> ends with
  \<open>Given file is not a zip\<close>; in both cases no S3 or Lambda call is issued, nothing is
  pushed downstream, and the stream callback receives the error.
\<close>

theorem flush_without_zip_file:
  "(file_p p = None \<longrightarrow>
      flush s3c lambda p =
        \<lparr>calls = [], pushed = [],
         callback = Called (Some (PluginError ''gulp-lambda-deploy'' ''No code provided'')),
         uncaught = None\<rparr>) \<and>
   (\<forall>f. file_p p = Some f \<and> \<not> suffix ''.zip'' (path f) \<longrightarrow>
      flush s3c lambda p =
        \<lparr>calls = [], pushed = [],
         callback = Called (Some (PluginError ''gulp-lambda-deploy'' ''Given file is not a zip'')),
         uncaught = None\<rparr>)"
  by (simp add: flush_def cb_gulpError_message slice_zip_suffix)

theorem flush_without_zip_file_witness:
  "file_p (basic_params\<lparr>file_p := None\<rparr>) = None \<and>
   flush s3_ok lambda_existing (basic_params\<lparr>file_p := None\<rparr>) =
     \<lparr>calls = [], pushed = [],
      callback = Called (Some (PluginError ''gulp-lambda-deploy'' ''No code provided'')),
      uncaught = None\<rparr> \<and>
   file_p (basic_params\<lparr>file_p := Some js_file\<rparr>) = Some js_file \<and>
   \<not> suffix ''.zip'' (path js_file) \<and>
   flush s3_ok lambda_existing (basic_params\<lparr>file_p := Some js_file\<rparr>) =
     \<lparr>calls = [], pushed = [],
      callback = Called (Some (PluginError ''gulp-lambda-deploy'' ''Given file is not a zip'')),
      uncaught = None\<rparr>"
proof -
  have none: "file_p (basic_params\<lparr>file_p := None\<rparr>) = None" by simp
  have js: "file_p (basic_params\<lparr>file_p := Some js_file\<rparr>) = Some js_file" by simp
  have nozip: "\<not> suffix ''.zip'' (path js_file)"
    by (simp add: js_file_def suffix_to_prefix)
  from flush_without_zip_file [of "basic_params\<lparr>file_p := None\<rparr>" s3_ok lambda_existing]
    flush_without_zip_file [of "basic_params\<lparr>file_p := Some js_file\<rparr>" s3_ok lambda_existing]
    none js nozip
  show ?thesis by blast
qed

text \<open>
  C7. In every flush run each SDK operation is issued at most once (so none is
  attempted again), and a rejection ends the run: a call that rejected is the last call
  issued, and when the existence check rejects after \<open>listFunctions\<close> was called, that call
  is the last one.
\<close>

theorem each_operation_at_most_once:
  "distinct (ops (flush s3c lambda p)) \<and>
   (\<forall>i < length (calls (flush s3c lambda p)).
      call_error (calls (flush s3c lambda p) ! i) \<noteq> None \<longrightarrow>
      Suc i = length (calls (flush s3c lambda p))) \<and>
   (\<forall>e. snd (hasLambdaFunction lambda (functionName p)) = Inl e \<and>
        ListFunctions \<in> set (ops (flush s3c lambda p)) \<longrightarrow>
        last (ops (flush s3c lambda p)) = ListFunctions)"
proof (intro conjI allI impI)
  from ops_flush_prefix [of s3c lambda p] obtain zs
    where "upsert_script lambda p @ alias_script lambda p = ops (flush s3c lambda p) @ zs"
    by (auto simp: prefix_def)
  with distinct_script [of lambda p] have "distinct (ops (flush s3c lambda p) @ zs)" by simp
  then show "distinct (ops (flush s3c lambda p))" by simp
next
  fix i
  assume i: "i < length (calls (flush s3c lambda p))"
    and rej: "call_error (calls (flush s3c lambda p) ! i) \<noteq> None"
  show "Suc i = length (calls (flush s3c lambda p))"
  proof (rule ccontr)
    assume "Suc i \<noteq> length (calls (flush s3c lambda p))"
    with i have "Suc i < length (calls (flush s3c lambda p))" by simp
    then have "call_error (calls (flush s3c lambda p) ! i) = None" by (rule calls_flush_resolved)
    with rej show False by simp
  qed
next
  fix e
  assume h: "snd (hasLambdaFunction lambda (functionName p)) = Inl e \<and>
             ListFunctions \<in> set (ops (flush s3c lambda p))"
  then have nonempty: "calls (flush s3c lambda p) \<noteq> []" by (auto simp: ops_def)
  with calls_flush_cases [of s3c lambda p]
  have eq: "calls (flush s3c lambda p) = fst (flush_chain s3c lambda p)" by simp
  from h have rej: "snd (hasLambdaFunction lambda (functionName p)) = Inl e" by simp
  from h have mem: "ListFunctions \<in> set (map call_op (fst (flush_chain s3c lambda p)))"
    by (simp add: ops_def eq)
  have up: "\<not> (s3 p \<noteq> None \<and> isl (snd (s3upload s3c p)))"
  proof
    assume "s3 p \<noteq> None \<and> isl (snd (s3upload s3c p))"
    then have "fst (flush_chain s3c lambda p) = fst (s3upload s3c p)"
      by (simp add: fst_flush_chain fst_upsertedFunction snd_upsertedFunction)
    with mem ops_s3upload [of s3c p] show False by auto
  qed
  then have up': "(s3 p \<noteq> None \<and> isl (snd (s3upload s3c p))) = False" by simp
  have "fst (flush_chain s3c lambda p) =
      (if s3 p \<noteq> None then fst (s3upload s3c p) else []) @
      fst (hasLambdaFunction lambda (functionName p))"
    unfolding fst_flush_chain fst_upsertedFunction snd_upsertedFunction up'
    using rej by simp
  then show "last (ops (flush s3c lambda p)) = ListFunctions"
    by (simp add: ops_def eq fst_hasLambdaFunction)
qed

theorem each_operation_at_most_once_witness:
  "distinct (ops (flush s3_ok lambda_code_rejected basic_params)) \<and>
   1 < length (calls (flush s3_ok lambda_code_rejected basic_params)) \<and>
   call_error (calls (flush s3_ok lambda_code_rejected basic_params) ! 1) \<noteq> None \<and>
   Suc 1 = length (calls (flush s3_ok lambda_code_rejected basic_params)) \<and>
   snd (hasLambdaFunction lambda_unlisted (functionName basic_params)) =
     Inl (TypeError ''Cannot read properties of undefined (reading 'length')'') \<and>
   ListFunctions \<in> set (ops (flush s3_ok lambda_unlisted basic_params)) \<and>
   last (ops (flush s3_ok lambda_unlisted basic_params)) = ListFunctions"
proof -
  note examples =
    zip_file_def deployed_def unrelated_def throttled_def s3_ok_def
    basic_params_def lambda_existing_def lambda_code_rejected_def
    lambda_unlisted_def
  have len: "1 < length (calls (flush s3_ok lambda_code_rejected basic_params))"
    by (simp add: run_defs examples)
  have rej: "call_error (calls (flush s3_ok lambda_code_rejected basic_params) ! 1) \<noteq> None"
    by (simp add: run_defs examples)
  have has: "snd (hasLambdaFunction lambda_unlisted (functionName basic_params)) =
     Inl (TypeError ''Cannot read properties of undefined (reading 'length')'')"
    by (simp add: run_defs examples)
  have mem: "ListFunctions \<in> set (ops (flush s3_ok lambda_unlisted basic_params))"
    by (simp add: run_defs examples)
  from each_operation_at_most_once [of s3_ok lambda_code_rejected basic_params]
    each_operation_at_most_once [of s3_ok lambda_unlisted basic_params]
    len rej has mem
  show ?thesis by blast
qed

text \<open>
  C2. In a flush run on a platform where the target function exists, the SDK methods are
  called in the fixed order: the S3 upload (only when \<open>params.s3\<close> is given), the
  existence check, the code update, the wait, the configuration update, and the alias
  (read, then created or updated; only when \<open>params.alias\<close> is given). The calls of a run
  are a prefix of that script, every call but the last one resolved, and a run that ends
  without error has issued the whole script. The wait is for the state
  \<open>functionUpdated\<close> of the target function.
\<close>

theorem update_steps_in_fixed_order:
  assumes "sdk_listFunctions lambda (Obj []) = Inr res" and "Functions res = Some fs"
    and "\<exists>fc \<in> set fs. FunctionName fc = functionName p"
  shows "\<exists>aliasOp \<in> {CreateAlias, UpdateAlias}.
     prefix (ops (flush s3c lambda p))
       ((if s3 p = None then [] else [PutObject]) @
        [ListFunctions, UpdateFunctionCode, WaitFor, UpdateFunctionConfiguration] @
        (if alias_p p = None then [] else [GetAlias, aliasOp])) \<and>
     (\<forall>i. Suc i < length (calls (flush s3c lambda p)) \<longrightarrow>
          call_error (calls (flush s3c lambda p) ! i) = None) \<and>
     (\<forall>f. file_p p = Some f \<and> suffix ''.zip'' (path f) \<and>
          callback (flush s3c lambda p) = Called None \<longrightarrow>
          ops (flush s3c lambda p) =
            (if s3 p = None then [] else [PutObject]) @
            [ListFunctions, UpdateFunctionCode, WaitFor, UpdateFunctionConfiguration] @
            (if truthy (js_str (alias_p p)) then [GetAlias, aliasOp] else [])) \<and>
     (\<forall>c \<in> set (calls (flush s3c lambda p)). call_op c = WaitFor \<longrightarrow>
          call_args c = [Str ''functionUpdated'',
                         Obj [(''FunctionName'', js_str (functionName p))]])"
proof -
  let ?aliasOp = "case snd (getAlias lambda p) of
                    Inr (Some existing) \<Rightarrow> UpdateAlias | other \<Rightarrow> CreateAlias"
  let ?upsert = "(if s3 p = None then [] else [PutObject]) @
        [ListFunctions, UpdateFunctionCode, WaitFor, UpdateFunctionConfiguration]"
  have has: "snd (hasLambdaFunction lambda (functionName p)) = Inr True"
    using assms by (rule existing_function_found)
  then have upsert: "upsert_script lambda p = ?upsert"
    by (simp add: upsert_script_def)
  have ascript: "alias_script lambda p =
      (if truthy (js_str (alias_p p)) then [GetAlias, ?aliasOp] else [])"
    by (simp add: alias_script_def)
  have "prefix (alias_script lambda p) (if alias_p p = None then [] else [GetAlias, ?aliasOp])"
    by (auto simp: ascript js_str_def)
  then have "prefix (upsert_script lambda p @ alias_script lambda p)
               (?upsert @ (if alias_p p = None then [] else [GetAlias, ?aliasOp]))"
    by (simp add: upsert)
  with ops_flush_prefix [of s3c lambda p]
  have order: "prefix (ops (flush s3c lambda p))
                 (?upsert @ (if alias_p p = None then [] else [GetAlias, ?aliasOp]))"
    by (rule prefix_order.trans)
  have resolved: "\<forall>i. Suc i < length (calls (flush s3c lambda p)) \<longrightarrow>
          call_error (calls (flush s3c lambda p) ! i) = None"
    by (simp add: calls_flush_resolved)
  have whole: "ops (flush s3c lambda p) =
      ?upsert @ (if truthy (js_str (alias_p p)) then [GetAlias, ?aliasOp] else [])"
    if "file_p p = Some f \<and> suffix ''.zip'' (path f) \<and>
        callback (flush s3c lambda p) = Called None"
    for f
  proof -
    from that have "\<not> isl (snd (flush_chain s3c lambda p))"
      using callback_flush_done [of p f s3c lambda] by blast
    with follows_flush_chain [of s3c lambda p]
    have "map call_op (fst (flush_chain s3c lambda p)) =
            upsert_script lambda p @ alias_script lambda p"
      by (simp add: follows_def)
    with that show ?thesis by (simp add: ops_def calls_flush upsert ascript)
  qed
  have either: "?aliasOp \<in> {CreateAlias, UpdateAlias}"
    by (simp split: sum.splits option.splits)
  have waits: "\<forall>c \<in> set (calls (flush s3c lambda p)). call_op c = WaitFor \<longrightarrow>
          call_args c = [Str ''functionUpdated'',
                         Obj [(''FunctionName'', js_str (functionName p))]]"
    using waitFor_call by blast
  from order resolved whole waits either show ?thesis
    by (intro bexI [of _ ?aliasOp]) (simp_all only: append_assoc, blast)
qed

theorem update_steps_in_fixed_order_witness:
  "sdk_listFunctions lambda_existing (Obj []) = Inr \<lparr>Functions = Some [unrelated, deployed]\<rparr> \<and>
   Functions \<lparr>Functions = Some [unrelated, deployed]\<rparr> = Some [unrelated, deployed] \<and>
   (\<exists>fc \<in> set [unrelated, deployed]. FunctionName fc = functionName release_params) \<and>
   ops (flush s3_ok lambda_existing release_params) =
     [PutObject, ListFunctions, UpdateFunctionCode, WaitFor, UpdateFunctionConfiguration,
      GetAlias, UpdateAlias] \<and>
   (\<exists>aliasOp \<in> {CreateAlias, UpdateAlias}.
     prefix (ops (flush s3_ok lambda_existing release_params))
       ((if s3 release_params = None then [] else [PutObject]) @
        [ListFunctions, UpdateFunctionCode, WaitFor, UpdateFunctionConfiguration] @
        (if alias_p release_params = None then [] else [GetAlias, aliasOp])) \<and>
     (\<forall>i. Suc i < length (calls (flush s3_ok lambda_existing release_params)) \<longrightarrow>
          call_error (calls (flush s3_ok lambda_existing release_params) ! i) = None) \<and>
     (\<forall>f. file_p release_params = Some f \<and> suffix ''.zip'' (path f) \<and>
          callback (flush s3_ok lambda_existing release_params) = Called None \<longrightarrow>
          ops (flush s3_ok lambda_existing release_params) =
            (if s3 release_params = None then [] else [PutObject]) @
            [ListFunctions, UpdateFunctionCode, WaitFor, UpdateFunctionConfiguration] @
            (if truthy (js_str (alias_p release_params)) then [GetAlias, aliasOp] else [])) \<and>
     (\<forall>c \<in> set (calls (flush s3_ok lambda_existing release_params)).
          call_op c = WaitFor \<longrightarrow>
          call_args c = [Str ''functionUpdated'',
                         Obj [(''FunctionName'', js_str (functionName release_params))]]))"
proof -
  note examples =
    zip_file_def artifacts_def deployed_def unrelated_def s3_ok_def
    basic_params_def lambda_existing_def release_params_def
  have listed: "sdk_listFunctions lambda_existing (Obj []) =
      Inr \<lparr>Functions = Some [unrelated, deployed]\<rparr>"
    by (simp add: lambda_existing_def)
  have fs: "Functions \<lparr>Functions = Some [unrelated, deployed]\<rparr> = Some [unrelated, deployed]"
    by simp
  have named: "\<exists>fc \<in> set [unrelated, deployed]. FunctionName fc = functionName release_params"
    by (simp add: examples)
  have run: "ops (flush s3_ok lambda_existing release_params) =
     [PutObject, ListFunctions, UpdateFunctionCode, WaitFor, UpdateFunctionConfiguration,
      GetAlias, UpdateAlias]"
    by (simp add: run_defs examples)
  from listed fs named run update_steps_in_fixed_order [OF listed fs named, of s3_ok]
  show ?thesis by (intro conjI)
qed

text \<open>
  C10. The requests of \<open>createFunction\<close> and of \<open>updateFunctionConfiguration\<close> include a
  \<open>VpcConfig\<close> exactly when \<open>params.subnets\<close> and \<open>params.securityGroups\<close> are both
  truthy; it then holds the two settings as arrays, a bare string wrapped into a
  one-element array. With one of the two missing the property is left out and the request
  is sent all the same.
\<close>

theorem vpc_config_only_with_subnets_and_security_groups:
  "(\<forall>c \<in> set (fst (createFunction lambda p)) \<union>
          set (fst (updateFunctionConfiguration lambda p)).
      (has_field ''VpcConfig'' (request_object c) \<longleftrightarrow>
         truthy (js_ids (subnets p)) \<and> truthy (js_ids (securityGroups p))) \<and>
      (has_field ''VpcConfig'' (request_object c) \<longrightarrow>
         (\<exists>sn sg. subnets p = Some sn \<and> securityGroups p = Some sg \<and>
            get_field ''VpcConfig'' (request_object c) =
              Obj [(''SubnetIds'', wrapped_ids sn), (''SecurityGroupIds'', wrapped_ids sg)]))) \<and>
   map call_op (fst (updateFunctionConfiguration lambda p)) = [UpdateFunctionConfiguration] \<and>
   (s3 p \<noteq> None \<or> file_p p \<noteq> None \<longrightarrow>
      map call_op (fst (createFunction lambda p)) = [CreateFunction])"
proof (intro conjI ballI impI)
  fix c
  assume "c \<in> set (fst (createFunction lambda p)) \<union>
              set (fst (updateFunctionConfiguration lambda p))"
  then consider (create) "c \<in> set (fst (createFunction lambda p))"
    | (update) "c \<in> set (fst (updateFunctionConfiguration lambda p))"
    by blast
  then have obj: "(has_field ''VpcConfig'' (request_object c) \<longleftrightarrow>
         truthy (js_ids (subnets p)) \<and> truthy (js_ids (securityGroups p))) \<and>
       (\<exists>base. request_object c = set_vpc p base)"
  proof cases
    case create
    from in_createFunction [OF this] obtain lamparams
      where "createFunction_lamparams p = Inr lamparams" and "call_args c = [Obj lamparams]"
      by blast
    with vpc_createFunction [of p lamparams] show ?thesis by simp
  next
    case update
    then have "call_args c = [Obj (updateFunctionConfiguration_lamparams p)]"
      by (simp add: updateFunctionConfiguration_def request_def Let_def)
    with vpc_updateFunctionConfiguration [of p] show ?thesis
      by (auto simp: updateFunctionConfiguration_lamparams_def)
  qed
  then show "has_field ''VpcConfig'' (request_object c) \<longleftrightarrow>
         truthy (js_ids (subnets p)) \<and> truthy (js_ids (securityGroups p))"
    by simp
  assume "has_field ''VpcConfig'' (request_object c)"
  with obj have both: "truthy (js_ids (subnets p))" "truthy (js_ids (securityGroups p))"
    by simp_all
  from obj obtain base where "request_object c = set_vpc p base" by blast
  with get_field_set_vpc [OF both, of base]
  show "\<exists>sn sg. subnets p = Some sn \<and> securityGroups p = Some sg \<and>
            get_field ''VpcConfig'' (request_object c) =
              Obj [(''SubnetIds'', wrapped_ids sn), (''SecurityGroupIds'', wrapped_ids sg)]"
    by simp
next
  show "map call_op (fst (updateFunctionConfiguration lambda p)) = [UpdateFunctionConfiguration]"
    by (simp add: updateFunctionConfiguration_def request_def Let_def)
next
  assume "s3 p \<noteq> None \<or> file_p p \<noteq> None"
  from createFunction_lamparams_defined [OF this]
  show "map call_op (fst (createFunction lambda p)) = [CreateFunction]"
    by (auto simp: createFunction_def request_def)
qed

theorem vpc_config_only_with_subnets_and_security_groups_witness:
  "truthy (js_ids (subnets vpc_params)) \<and> truthy (js_ids (securityGroups vpc_params)) \<and>
   list_all
     (\<lambda>c. has_field ''VpcConfig'' (request_object c) \<and>
          get_field ''VpcConfig'' (request_object c) =
            Obj [(''SubnetIds'', Arr [Str ''subnet-1'']),
                 (''SecurityGroupIds'', Arr [Str ''sg-1'', Str ''sg-2''])])
     (fst (createFunction lambda_fresh vpc_params) @
      fst (updateFunctionConfiguration lambda_fresh vpc_params)) \<and>
   map call_op (fst (createFunction lambda_fresh vpc_params)) = [CreateFunction] \<and>
   truthy (js_ids (subnets subnets_only_params)) \<and>
   \<not> truthy (js_ids (securityGroups subnets_only_params)) \<and>
   list_all (\<lambda>c. \<not> has_field ''VpcConfig'' (request_object c))
     (fst (createFunction lambda_fresh subnets_only_params) @
      fst (updateFunctionConfiguration lambda_fresh subnets_only_params)) \<and>
   map call_op (fst (createFunction lambda_fresh subnets_only_params)) = [CreateFunction]"
proof -
  note examples =
    zip_file_def deployed_def unrelated_def basic_params_def lambda_existing_def
    lambda_fresh_def vpc_params_def subnets_only_params_def
  have given: "truthy (js_ids (subnets vpc_params))" "truthy (js_ids (securityGroups vpc_params))"
    "subnets vpc_params = Some (IdString ''subnet-1'')"
    "securityGroups vpc_params = Some (IdArray [''sg-1'', ''sg-2''])"
    "s3 vpc_params \<noteq> None \<or> file_p vpc_params \<noteq> None"
    by (simp_all add: examples js_ids_def)
  have partly: "truthy (js_ids (subnets subnets_only_params))"
    "\<not> truthy (js_ids (securityGroups subnets_only_params))"
    "s3 subnets_only_params \<noteq> None \<or> file_p subnets_only_params \<noteq> None"
    by (simp_all add: examples js_ids_def)
  note both = vpc_config_only_with_subnets_and_security_groups [of lambda_fresh vpc_params]
  note one = vpc_config_only_with_subnets_and_security_groups [of lambda_fresh subnets_only_params]
  from both given have "\<forall>c \<in> set (fst (createFunction lambda_fresh vpc_params)) \<union>
          set (fst (updateFunctionConfiguration lambda_fresh vpc_params)).
      has_field ''VpcConfig'' (request_object c) \<and>
      get_field ''VpcConfig'' (request_object c) =
        Obj [(''SubnetIds'', Arr [Str ''subnet-1'']),
             (''SecurityGroupIds'', Arr [Str ''sg-1'', Str ''sg-2''])]"
    by fastforce
  then have 1: "list_all
     (\<lambda>c. has_field ''VpcConfig'' (request_object c) \<and>
          get_field ''VpcConfig'' (request_object c) =
            Obj [(''SubnetIds'', Arr [Str ''subnet-1'']),
                 (''SecurityGroupIds'', Arr [Str ''sg-1'', Str ''sg-2''])])
     (fst (createFunction lambda_fresh vpc_params) @
      fst (updateFunctionConfiguration lambda_fresh vpc_params))"
    by (simp add: list_all_iff)
  from both given have 2: "map call_op (fst (createFunction lambda_fresh vpc_params)) =
      [CreateFunction]"
    by blast
  from one partly have "\<forall>c \<in> set (fst (createFunction lambda_fresh subnets_only_params)) \<union>
          set (fst (updateFunctionConfiguration lambda_fresh subnets_only_params)).
      \<not> has_field ''VpcConfig'' (request_object c)"
    by blast
  then have 3: "list_all (\<lambda>c. \<not> has_field ''VpcConfig'' (request_object c))
     (fst (createFunction lambda_fresh subnets_only_params) @
      fst (updateFunctionConfiguration lambda_fresh subnets_only_params))"
    by (simp add: list_all_iff)
  from one partly have 4: "map call_op (fst (createFunction lambda_fresh subnets_only_params)) =
      [CreateFunction]"
    by blast
  from given(1,2) partly(1,2) 1 2 3 4 show ?thesis by (intro conjI)
qed

text \<open>
  C1 (amended). \<open>hasLambdaFunction\<close> returns true exactly when an entry of the list response
  has the target name. In a flush run whose existence check returned true the plugin calls
  \<open>updateFunctionCode\<close> and never \<open>createFunction\<close>, and it calls
  \<open>updateFunctionConfiguration\<close> exactly when the code update and the wait that follows it
  both resolved. In a run whose check returned false it calls \<open>createFunction\<close> and neither
  update. So the function is created only after a check that returned false, and updated
  only after one that returned true.
\<close>

theorem create_or_update_by_existence_check:
  "(snd (hasLambdaFunction lambda (functionName p)) = Inr True \<longleftrightarrow>
      (\<exists>res fs. sdk_listFunctions lambda (Obj []) = Inr res \<and> Functions res = Some fs \<and>
         (\<exists>fc \<in> set fs. FunctionName fc = functionName p))) \<and>
   (ListFunctions \<in> set (ops (flush s3c lambda p)) \<and>
    snd (hasLambdaFunction lambda (functionName p)) = Inr True \<longrightarrow>
      UpdateFunctionCode \<in> set (ops (flush s3c lambda p)) \<and>
      CreateFunction \<notin> set (ops (flush s3c lambda p)) \<and>
      (UpdateFunctionConfiguration \<in> set (ops (flush s3c lambda p)) \<longleftrightarrow>
         (\<forall>c \<in> set (calls (flush s3c lambda p)).
            call_op c = UpdateFunctionCode \<or> call_op c = WaitFor \<longrightarrow> call_error c = None))) \<and>
   (ListFunctions \<in> set (ops (flush s3c lambda p)) \<and>
    snd (hasLambdaFunction lambda (functionName p)) = Inr False \<longrightarrow>
      CreateFunction \<in> set (ops (flush s3c lambda p)) \<and>
      UpdateFunctionCode \<notin> set (ops (flush s3c lambda p)) \<and>
      UpdateFunctionConfiguration \<notin> set (ops (flush s3c lambda p))) \<and>
   (CreateFunction \<in> set (ops (flush s3c lambda p)) \<longrightarrow>
      ListFunctions \<in> set (ops (flush s3c lambda p)) \<and>
      snd (hasLambdaFunction lambda (functionName p)) = Inr False) \<and>
   (UpdateFunctionCode \<in> set (ops (flush s3c lambda p)) \<longrightarrow>
      ListFunctions \<in> set (ops (flush s3c lambda p)) \<and>
      snd (hasLambdaFunction lambda (functionName p)) = Inr True)"
proof (intro conjI impI)
  show "snd (hasLambdaFunction lambda (functionName p)) = Inr True \<longleftrightarrow>
      (\<exists>res fs. sdk_listFunctions lambda (Obj []) = Inr res \<and> Functions res = Some fs \<and>
         (\<exists>fc \<in> set fs. FunctionName fc = functionName p))"
    by (rule hasLambdaFunction_true_iff)
next
  assume h: "ListFunctions \<in> set (ops (flush s3c lambda p)) \<and>
    snd (hasLambdaFunction lambda (functionName p)) = Inr True"
  then have checked: "ListFunctions \<in> set (ops (flush s3c lambda p))"
    and has: "snd (hasLambdaFunction lambda (functionName p)) = Inr True"
    by simp_all
  from update_run [OF checked has]
  show "UpdateFunctionCode \<in> set (ops (flush s3c lambda p))"
    and "CreateFunction \<notin> set (ops (flush s3c lambda p))"
    and "UpdateFunctionConfiguration \<in> set (ops (flush s3c lambda p)) \<longleftrightarrow>
         (\<forall>c \<in> set (calls (flush s3c lambda p)).
            call_op c = UpdateFunctionCode \<or> call_op c = WaitFor \<longrightarrow> call_error c = None)"
    by blast+
next
  assume h: "ListFunctions \<in> set (ops (flush s3c lambda p)) \<and>
    snd (hasLambdaFunction lambda (functionName p)) = Inr False"
  then have checked: "ListFunctions \<in> set (ops (flush s3c lambda p))"
    and has: "snd (hasLambdaFunction lambda (functionName p)) = Inr False"
    by simp_all
  from create_run [OF checked has]
  show "CreateFunction \<in> set (ops (flush s3c lambda p))"
    and "UpdateFunctionCode \<notin> set (ops (flush s3c lambda p))"
    and "UpdateFunctionConfiguration \<notin> set (ops (flush s3c lambda p))"
    by blast+
next
  assume created: "CreateFunction \<in> set (ops (flush s3c lambda p))"
  then show checked: "ListFunctions \<in> set (ops (flush s3c lambda p))"
    by (rule lambda_call_after_check) simp
  show "snd (hasLambdaFunction lambda (functionName p)) = Inr False"
  proof (cases "snd (hasLambdaFunction lambda (functionName p))")
    case (Inl e)
    from rejected_check_run [OF checked Inl] created show ?thesis by auto
  next
    case (Inr h)
    with update_run [OF checked] created show ?thesis by (cases h) auto
  qed
next
  assume updated: "UpdateFunctionCode \<in> set (ops (flush s3c lambda p))"
  then show checked: "ListFunctions \<in> set (ops (flush s3c lambda p))"
    by (rule lambda_call_after_check) simp
  show "snd (hasLambdaFunction lambda (functionName p)) = Inr True"
  proof (cases "snd (hasLambdaFunction lambda (functionName p))")
    case (Inl e)
    from rejected_check_run [OF checked Inl] updated show ?thesis by auto
  next
    case (Inr h)
    with create_run [OF checked] updated show ?thesis by (cases h) auto
  qed
qed

theorem create_or_update_by_existence_check_witness:
  "ListFunctions \<in> set (ops (flush s3_ok lambda_existing basic_params)) \<and>
   snd (hasLambdaFunction lambda_existing (functionName basic_params)) = Inr True \<and>
   list_all (\<lambda>c. call_error c = None) (calls (flush s3_ok lambda_existing basic_params)) \<and>
   UpdateFunctionCode \<in> set (ops (flush s3_ok lambda_existing basic_params)) \<and>
   UpdateFunctionConfiguration \<in> set (ops (flush s3_ok lambda_existing basic_params)) \<and>
   CreateFunction \<notin> set (ops (flush s3_ok lambda_existing basic_params)) \<and>
   ListFunctions \<in> set (ops (flush s3_ok lambda_fresh basic_params)) \<and>
   snd (hasLambdaFunction lambda_fresh (functionName basic_params)) = Inr False \<and>
   CreateFunction \<in> set (ops (flush s3_ok lambda_fresh basic_params)) \<and>
   UpdateFunctionCode \<notin> set (ops (flush s3_ok lambda_fresh basic_params)) \<and>
   UpdateFunctionConfiguration \<notin> set (ops (flush s3_ok lambda_fresh basic_params))"
proof -
  note examples =
    zip_file_def deployed_def unrelated_def s3_ok_def basic_params_def
    lambda_existing_def lambda_fresh_def
  have checked: "ListFunctions \<in> set (ops (flush s3_ok lambda_existing basic_params))"
    "ListFunctions \<in> set (ops (flush s3_ok lambda_fresh basic_params))"
    by (simp_all add: run_defs examples)
  have has: "snd (hasLambdaFunction lambda_existing (functionName basic_params)) = Inr True"
    "snd (hasLambdaFunction lambda_fresh (functionName basic_params)) = Inr False"
    by (simp_all add: run_defs examples)
  have ok: "list_all (\<lambda>c. call_error c = None)
              (calls (flush s3_ok lambda_existing basic_params))"
    by (simp add: run_defs examples)
  then have resolved: "\<forall>c \<in> set (calls (flush s3_ok lambda_existing basic_params)).
      call_op c = UpdateFunctionCode \<or> call_op c = WaitFor \<longrightarrow> call_error c = None"
    by (simp add: list_all_iff)
  note existing = create_or_update_by_existence_check [of lambda_existing basic_params s3_ok]
  note fresh = create_or_update_by_existence_check [of lambda_fresh basic_params s3_ok]
  from existing checked(1) has(1) resolved
  have 1: "UpdateFunctionCode \<in> set (ops (flush s3_ok lambda_existing basic_params)) \<and>
   UpdateFunctionConfiguration \<in> set (ops (flush s3_ok lambda_existing basic_params)) \<and>
   CreateFunction \<notin> set (ops (flush s3_ok lambda_existing basic_params))"
    by blast
  from fresh checked(2) has(2)
  have 2: "CreateFunction \<in> set (ops (flush s3_ok lambda_fresh basic_params)) \<and>
   UpdateFunctionCode \<notin> set (ops (flush s3_ok lambda_fresh basic_params)) \<and>
   UpdateFunctionConfiguration \<notin> set (ops (flush s3_ok lambda_fresh basic_params))"
    by blast
  from checked has ok 1 2 show ?thesis by (intro conjI) blast+
qed

text \<open>
  The sentence as first stated promises the configuration update whenever the check
  returns true. In the run below the check returns true and the code update is rejected:
  the configuration update is never called.
\<close>

theorem configuration_update_skipped_counterexample:
  "ListFunctions \<in> set (ops (flush s3_ok lambda_code_rejected basic_params)) \<and>
   snd (hasLambdaFunction lambda_code_rejected (functionName basic_params)) = Inr True \<and>
   UpdateFunctionConfiguration \<notin> set (ops (flush s3_ok lambda_code_rejected basic_params))"
proof -
  note examples =
    zip_file_def deployed_def unrelated_def throttled_def s3_ok_def
    basic_params_def lambda_existing_def lambda_code_rejected_def
  show ?thesis by (simp add: run_defs examples)
qed

text \<open>
  C4 (amended). In a flush run whose buffered file has a path ending in \<open>.zip\<close>: with
  \<open>params.s3\<close> present, the first call is \<open>s3.putObject\<close> with the bucket, the key and the
  contents of the file, no later call is \<open>putObject\<close> (so it is invoked exactly once,
  before any Lambda call), and the requests of \<open>createFunction\<close> and \<open>updateFunctionCode\<close>
  refer to the code by \<open>S3Bucket\<close> and \<open>S3Key\<close> and have no \<open>ZipFile\<close>; without
  \<open>params.s3\<close>, no S3 call is made and those requests carry the contents of the file as
  \<open>ZipFile\<close>, with no S3 reference.
\<close>

theorem code_sent_through_s3_or_inline:
  assumes "file_p p = Some f" and "suffix ''.zip'' (path f)"
  shows "(\<forall>loc. s3 p = Some loc \<longrightarrow>
            (\<exists>put rest. calls (flush s3c lambda p) = put # rest \<and> call_op put = PutObject \<and>
               call_args put = [Obj [(''Bucket'', js_str (bucket loc)),
                                     (''Key'', js_str (key loc)),
                                     (''Body'', FileContents (contents f))]] \<and>
               PutObject \<notin> set (map call_op rest)) \<and>
            (\<forall>c \<in> set (calls (flush s3c lambda p)).
               call_op c = CreateFunction \<or> call_op c = UpdateFunctionCode \<longrightarrow>
               code_from_s3 loc c)) \<and>
         (s3 p = None \<longrightarrow>
            PutObject \<notin> set (ops (flush s3c lambda p)) \<and>
            (\<forall>c \<in> set (calls (flush s3c lambda p)).
               call_op c = CreateFunction \<or> call_op c = UpdateFunctionCode \<longrightarrow>
               code_inline f c))"
proof -
  have eq: "calls (flush s3c lambda p) = fst (flush_chain s3c lambda p)"
    using assms by (rule calls_flush_valid)
  have code: "(\<forall>loc. s3 p = Some loc \<longrightarrow> code_from_s3 loc c) \<and>
              (s3 p = None \<longrightarrow> code_inline f c)"
    if c: "c \<in> set (calls (flush s3c lambda p))"
      and op: "call_op c = CreateFunction \<or> call_op c = UpdateFunctionCode" for c
  proof -
    from c have "c \<in> set (fst (flush_chain s3c lambda p))" by (rule in_calls_flush)
    from in_flush_chain [OF this] consider
        (upload) "c \<in> set (fst (s3upload s3c p))"
      | (check) "c \<in> set (fst (hasLambdaFunction lambda (functionName p)))"
      | (update) "c \<in> set (fst (updateFunction lambda p))"
      | (create) "c \<in> set (fst (createFunction lambda p))"
      | (upsert) version where "c \<in> set (fst (upsertAlias lambda version p))"
      by blast
    then show ?thesis
    proof cases
      case upload
      from in_s3upload [OF this] op show ?thesis by simp
    next
      case check
      from in_hasLambdaFunction [OF this] op show ?thesis by simp
    next
      case update
      from in_updateFunction [OF this] op obtain lamparams
        where "updateFunctionCode_lamparams p = Inr lamparams"
          and "call_op c = UpdateFunctionCode" and "call_args c = [Obj lamparams]"
        by auto
      from code_updateFunctionCode [OF this] assms(1) show ?thesis by simp
    next
      case create
      from in_createFunction [OF this] obtain lamparams
        where "createFunction_lamparams p = Inr lamparams"
          and "call_op c = CreateFunction" and "call_args c = [Obj lamparams]"
        by auto
      from code_createFunction [OF this] assms(1) show ?thesis by simp
    next
      case upsert
      from in_upsertAlias [OF this] op show ?thesis by auto
    qed
  qed
  have through_s3: "\<exists>put rest. calls (flush s3c lambda p) = put # rest \<and>
        call_op put = PutObject \<and>
        call_args put = [Obj [(''Bucket'', js_str (bucket loc)),
                              (''Key'', js_str (key loc)),
                              (''Body'', FileContents (contents f))]] \<and>
        PutObject \<notin> set (map call_op rest)"
    if loc: "s3 p = Some loc" for loc
  proof -
    let ?s3params = "[(''Bucket'', js_str (bucket loc)), (''Key'', js_str (key loc)),
                      (''Body'', FileContents (contents f))]"
    let ?put = "\<lparr>call_op = PutObject, call_args = [Obj ?s3params],
                 call_error = (case sdk_putObject s3c (Obj ?s3params) of
                                 Inl e \<Rightarrow> Some e | Inr v \<Rightarrow> None)\<rparr>"
    have up: "fst (s3upload s3c p) = [?put]"
      using loc assms(1) by (simp add: s3upload_def request_def Let_def)
    from loc obtain rest where cs: "calls (flush s3c lambda p) = ?put # rest"
      unfolding eq fst_flush_chain fst_upsertedFunction up by simp
    from distinct_ops_flush [of s3c lambda p] have "PutObject \<notin> set (map call_op rest)"
      by (simp add: ops_def cs)
    with cs show ?thesis by simp
  qed
  have inline: "PutObject \<notin> set (ops (flush s3c lambda p))" if "s3 p = None"
  proof
    assume "PutObject \<in> set (ops (flush s3c lambda p))"
    with ops_flush_prefix [of s3c lambda p]
    have "PutObject \<in> set (upsert_script lambda p @ alias_script lambda p)"
      by (meson set_mono_prefix subsetD)
    with that show False
      by (auto simp: upsert_script_def alias_script_def split: if_splits sum.splits option.splits)
  qed
  from code through_s3 inline show ?thesis by blast
qed

theorem code_sent_through_s3_or_inline_witness:
  "file_p release_params = Some zip_file \<and> suffix ''.zip'' (path zip_file) \<and>
   s3 release_params = Some artifacts \<and>
   code_update_call \<in> set (calls (flush s3_ok lambda_existing release_params)) \<and>
   call_op code_update_call = UpdateFunctionCode \<and>
   code_from_s3 artifacts code_update_call \<and>
   (\<exists>put rest. calls (flush s3_ok lambda_existing release_params) = put # rest \<and>
      call_op put = PutObject \<and>
      call_args put = [Obj [(''Bucket'', js_str (bucket artifacts)),
                            (''Key'', js_str (key artifacts)),
                            (''Body'', FileContents (contents zip_file))]] \<and>
      PutObject \<notin> set (map call_op rest)) \<and>
   file_p basic_params = Some zip_file \<and> s3 basic_params = None \<and>
   PutObject \<notin> set (ops (flush s3_ok lambda_fresh basic_params)) \<and>
   creation_call \<in> set (calls (flush s3_ok lambda_fresh basic_params)) \<and>
   call_op creation_call = CreateFunction \<and>
   code_inline zip_file creation_call"
proof -
  note examples =
    zip_file_def artifacts_def deployed_def unrelated_def s3_ok_def
    basic_params_def lambda_existing_def lambda_fresh_def release_params_def
    code_update_call_def creation_call_def
  have f: "file_p release_params = Some zip_file" "suffix ''.zip'' (path zip_file)"
    "file_p basic_params = Some zip_file"
    by (simp_all add: examples suffix_to_prefix)
  have loc: "s3 release_params = Some artifacts" "s3 basic_params = None"
    by (simp_all add: examples)
  have mem: "code_update_call \<in> set (calls (flush s3_ok lambda_existing release_params))"
    "call_op code_update_call = UpdateFunctionCode"
    "creation_call \<in> set (calls (flush s3_ok lambda_fresh basic_params))"
    "call_op creation_call = CreateFunction"
    by (simp_all add: run_defs examples)
  note via_s3 = code_sent_through_s3_or_inline [OF f(1,2), of s3_ok lambda_existing]
  note direct = code_sent_through_s3_or_inline [OF f(3,2), of s3_ok lambda_fresh]
  from via_s3 loc(1) mem(1,2) have 1: "code_from_s3 artifacts code_update_call" by blast
  from via_s3 loc(1)
  have 2: "\<exists>put rest. calls (flush s3_ok lambda_existing release_params) = put # rest \<and>
      call_op put = PutObject \<and>
      call_args put = [Obj [(''Bucket'', js_str (bucket artifacts)),
                            (''Key'', js_str (key artifacts)),
                            (''Body'', FileContents (contents zip_file))]] \<and>
      PutObject \<notin> set (map call_op rest)"
    by blast
  from direct loc(2) mem(3,4)
  have 3: "PutObject \<notin> set (ops (flush s3_ok lambda_fresh basic_params)) \<and>
           code_inline zip_file creation_call"
    by blast
  from f loc mem 1 2 3 show ?thesis by (intro conjI) blast+
qed

text \<open>
  The sentence as first stated promises the upload in every run with \<open>params.s3\<close>. In
  the run below \<open>params.s3\<close> is present and the buffered file is not a zip: the guard of
  \<open>flush\<close> ends the run and \<open>putObject\<close> is never called.
\<close>

theorem upload_skipped_counterexample:
  "s3 js_release_params = Some artifacts \<and>
   file_p js_release_params = Some js_file \<and>
   PutObject \<notin> set (ops (flush s3_ok lambda_existing js_release_params))"
proof -
  note examples =
    zip_file_def js_file_def artifacts_def deployed_def unrelated_def s3_ok_def
    basic_params_def lambda_existing_def release_params_def js_release_params_def
  show ?thesis by (simp add: run_defs examples)
qed

text \<open>
  C8 (amended). \<open>main(params, options)\<close> throws a \<open>PluginError\<close> of the plugin exactly when
  one of these holds: \<open>params\<close> is absent; \<open>params.functionName\<close> or \<open>params.role\<close> is
  absent or the empty string; \<open>options\<close> is absent; \<open>options.region\<close> or
  \<open>options.profile\<close> is absent or the empty string; \<open>params.s3\<close> is present and its
  \<open>bucket\<close> or \<open>key\<close> is absent or the empty string; or \<open>params.alias\<close> is a non-empty
  string while \<open>params.publish\<close> is not \<open>true\<close> (absent or \<open>false\<close>). Otherwise it
  returns the stream, which holds the two arguments.
\<close>

theorem main_throws_iff_argument_falsy:
  "(isl (main params_arg options_arg) \<longleftrightarrow>
      params_arg = None \<or> options_arg = None \<or>
      (\<exists>p. params_arg = Some p \<and>
         (functionName p = None \<or> functionName p = Some [] \<or>
          role p = None \<or> role p = Some [] \<or>
          (\<exists>loc. s3 p = Some loc \<and>
             (bucket loc = None \<or> bucket loc = Some [] \<or>
              key loc = None \<or> key loc = Some [])) \<or>
          (alias_p p \<noteq> None \<and> alias_p p \<noteq> Some [] \<and> publish p \<noteq> Some True))) \<or>
      (\<exists>opts. options_arg = Some opts \<and>
         (region opts = None \<or> region opts = Some [] \<or>
          profile opts = None \<or> profile opts = Some []))) \<and>
   (\<forall>e. main params_arg options_arg = Inl e \<longrightarrow>
      (\<exists>msg. e = PluginError ''gulp-lambda-deploy'' msg)) \<and>
   (\<not> isl (main params_arg options_arg) \<longrightarrow>
      (\<exists>p opts. params_arg = Some p \<and> options_arg = Some opts \<and>
         main params_arg options_arg = Inr \<lparr>stream_params = p, stream_options = opts\<rparr>))"
proof (intro conjI)
  show "isl (main params_arg options_arg) \<longleftrightarrow>
      params_arg = None \<or> options_arg = None \<or>
      (\<exists>p. params_arg = Some p \<and>
         (functionName p = None \<or> functionName p = Some [] \<or>
          role p = None \<or> role p = Some [] \<or>
          (\<exists>loc. s3 p = Some loc \<and>
             (bucket loc = None \<or> bucket loc = Some [] \<or>
              key loc = None \<or> key loc = Some [])) \<or>
          (alias_p p \<noteq> None \<and> alias_p p \<noteq> Some [] \<and> publish p \<noteq> Some True))) \<or>
      (\<exists>opts. options_arg = Some opts \<and>
         (region opts = None \<or> region opts = Some [] \<or>
          profile opts = None \<or> profile opts = Some []))"
  proof (cases params_arg)
    case None
    then show ?thesis by (simp add: main_def)
  next
    case (Some p)
    show ?thesis
    proof (cases options_arg)
      case None
      with Some show ?thesis by (simp add: main_def)
    next
      case opts: (Some opts)
      show ?thesis
        unfolding Some opts
        by (cases "s3 p") (auto simp: main_def truthy_js_str truthy_js_bool)
    qed
  qed
next
  show "\<forall>e. main params_arg options_arg = Inl e \<longrightarrow>
      (\<exists>msg. e = PluginError ''gulp-lambda-deploy'' msg)"
    by (auto simp: main_def throw_gulpError_def gulpError_def new_PluginError_def
        split: option.splits if_splits)
next
  show "\<not> isl (main params_arg options_arg) \<longrightarrow>
      (\<exists>p opts. params_arg = Some p \<and> options_arg = Some opts \<and>
         main params_arg options_arg = Inr \<lparr>stream_params = p, stream_options = opts\<rparr>)"
    by (auto simp: main_def split: option.splits if_splits)
qed

theorem main_throws_iff_argument_falsy_witness:
  "isl (main (Some unnamed_params) (Some basic_options)) \<and>
   isl (main (Some (release_params\<lparr>publish := None\<rparr>)) (Some basic_options)) \<and>
   isl (main (Some basic_params) None) \<and>
   main (Some release_params) (Some basic_options) =
     Inr \<lparr>stream_params = release_params, stream_options = basic_options\<rparr>"
proof -
  note examples =
    zip_file_def artifacts_def basic_options_def basic_params_def
    release_params_def unnamed_params_def
  have empty: "functionName unnamed_params = Some []" by (simp add: examples)
  have unpublished: "alias_p (release_params\<lparr>publish := None\<rparr>) \<noteq> None"
    "alias_p (release_params\<lparr>publish := None\<rparr>) \<noteq> Some []"
    "publish (release_params\<lparr>publish := None\<rparr>) \<noteq> Some True"
    by (simp_all add: examples)
  have valid: "\<not> isl (main (Some release_params) (Some basic_options))"
    by (simp add: main_def examples js_str_def js_bool_def)
  from main_throws_iff_argument_falsy [of "Some unnamed_params" "Some basic_options"] empty
  have 1: "isl (main (Some unnamed_params) (Some basic_options))" by simp
  from main_throws_iff_argument_falsy
      [of "Some (release_params\<lparr>publish := None\<rparr>)" "Some basic_options"] unpublished
  have 2: "isl (main (Some (release_params\<lparr>publish := None\<rparr>)) (Some basic_options))" by simp
  from main_throws_iff_argument_falsy [of "Some basic_params" None]
  have 3: "isl (main (Some basic_params) None)" by simp
  from main_throws_iff_argument_falsy [of "Some release_params" "Some basic_options"] valid
  have 4: "main (Some release_params) (Some basic_options) =
     Inr \<lparr>stream_params = release_params, stream_options = basic_options\<rparr>"
    by simp
  from 1 2 3 4 show ?thesis by (intro conjI)
qed

text \<open>
  The sentence as first stated lists absent properties only. Below, every required
  property is present, there is neither \<open>s3\<close> nor \<open>alias\<close>, and \<open>main\<close> throws all the
  same, because the function name is the empty string.
\<close>

theorem empty_function_name_counterexample:
  "functionName unnamed_params \<noteq> None \<and> role unnamed_params \<noteq> None \<and>
   region basic_options \<noteq> None \<and> profile basic_options \<noteq> None \<and>
   s3 unnamed_params = None \<and> alias_p unnamed_params = None \<and>
   main (Some unnamed_params) (Some basic_options) =
     Inl (PluginError ''gulp-lambda-deploy'' ''No Lambda function name provided'')"
proof -
  note examples =
    zip_file_def basic_options_def basic_params_def unnamed_params_def
  show ?thesis
    by (simp add: main_def examples js_str_def throw_gulpError_def gulpError_def
        new_PluginError_def)
qed

text \<open>
  C5. In every flush run, a request carries a \<open>Publish\<close> property exactly when it is the
  request of \<open>createFunction\<close> or \<open>updateFunctionCode\<close> (so the request of
  \<open>updateFunctionConfiguration\<close> never does), its value is \<open>params.publish\<close>, and it asks
  for a new version (a truthy flag) exactly when \<open>params.publish\<close> is \<open>true\<close>. The flag is
  sent: with code to deploy, \<open>createFunction\<close> and \<open>updateFunctionCode\<close> each issue exactly
  one request, which carries \<open>Publish\<close> with the value of \<open>params.publish\<close>, and
  \<open>updateFunctionConfiguration\<close> issues exactly one request, which carries no \<open>Publish\<close>;
  a run whose existence check finds no function issues the \<open>createFunction\<close> request with
  the flag, and a run whose check finds the function issues the \<open>updateFunctionCode\<close>
  request with the flag.
\<close>

theorem publish_flag_only_on_code_requests:
  "(\<forall>c \<in> set (calls (flush s3c lambda p)).
     (has_field ''Publish'' (request_object c) \<longleftrightarrow>
        call_op c = CreateFunction \<or> call_op c = UpdateFunctionCode) \<and>
     (has_field ''Publish'' (request_object c) \<longrightarrow>
        get_field ''Publish'' (request_object c) = js_bool (publish p)) \<and>
     (truthy (get_field ''Publish'' (request_object c)) \<longleftrightarrow>
        (call_op c = CreateFunction \<or> call_op c = UpdateFunctionCode) \<and>
        publish p = Some True)) \<and>
   (s3 p \<noteq> None \<or> file_p p \<noteq> None \<longrightarrow>
      (\<exists>c. fst (createFunction lambda p) = [c] \<and> call_op c = CreateFunction \<and>
         has_field ''Publish'' (request_object c) \<and>
         get_field ''Publish'' (request_object c) = js_bool (publish p)) \<and>
      (\<exists>c. fst (updateFunctionCode lambda p) = [c] \<and> call_op c = UpdateFunctionCode \<and>
         has_field ''Publish'' (request_object c) \<and>
         get_field ''Publish'' (request_object c) = js_bool (publish p))) \<and>
   (\<exists>c. fst (updateFunctionConfiguration lambda p) = [c] \<and>
      call_op c = UpdateFunctionConfiguration \<and>
      \<not> has_field ''Publish'' (request_object c)) \<and>
   (ListFunctions \<in> set (ops (flush s3c lambda p)) \<and>
    snd (hasLambdaFunction lambda (functionName p)) = Inr False \<longrightarrow>
      (\<exists>c \<in> set (calls (flush s3c lambda p)). call_op c = CreateFunction \<and>
         has_field ''Publish'' (request_object c) \<and>
         get_field ''Publish'' (request_object c) = js_bool (publish p) \<and>
         (truthy (get_field ''Publish'' (request_object c)) \<longleftrightarrow> publish p = Some True))) \<and>
   (ListFunctions \<in> set (ops (flush s3c lambda p)) \<and>
    snd (hasLambdaFunction lambda (functionName p)) = Inr True \<longrightarrow>
      (\<exists>c \<in> set (calls (flush s3c lambda p)). call_op c = UpdateFunctionCode \<and>
         has_field ''Publish'' (request_object c) \<and>
         get_field ''Publish'' (request_object c) = js_bool (publish p) \<and>
         (truthy (get_field ''Publish'' (request_object c)) \<longleftrightarrow> publish p = Some True)))"
proof -
  have issued: "\<forall>c \<in> set (calls (flush s3c lambda p)).
     (has_field ''Publish'' (request_object c) \<longleftrightarrow>
        call_op c = CreateFunction \<or> call_op c = UpdateFunctionCode) \<and>
     (has_field ''Publish'' (request_object c) \<longrightarrow>
        get_field ''Publish'' (request_object c) = js_bool (publish p)) \<and>
     (truthy (get_field ''Publish'' (request_object c)) \<longleftrightarrow>
        (call_op c = CreateFunction \<or> call_op c = UpdateFunctionCode) \<and>
        publish p = Some True)"
    using publish_call by blast
  have sent: "(\<exists>c. fst (createFunction lambda p) = [c] \<and> call_op c = CreateFunction \<and>
         has_field ''Publish'' (request_object c) \<and>
         get_field ''Publish'' (request_object c) = js_bool (publish p)) \<and>
      (\<exists>c. fst (updateFunctionCode lambda p) = [c] \<and> call_op c = UpdateFunctionCode \<and>
         has_field ''Publish'' (request_object c) \<and>
         get_field ''Publish'' (request_object c) = js_bool (publish p))"
    if code: "s3 p \<noteq> None \<or> file_p p \<noteq> None"
  proof
    from createFunction_request_shape [OF code, of lambda] obtain c lamparams
      where "fst (createFunction lambda p) = [c]" "call_op c = CreateFunction"
        "call_args c = [Obj lamparams]" "createFunction_lamparams p = Inr lamparams"
      by blast
    with publish_createFunction [of p lamparams]
    show "\<exists>c. fst (createFunction lambda p) = [c] \<and> call_op c = CreateFunction \<and>
           has_field ''Publish'' (request_object c) \<and>
           get_field ''Publish'' (request_object c) = js_bool (publish p)"
      by simp
    from updateFunctionCode_shape [OF code, of lambda] obtain c lamparams
      where "fst (updateFunctionCode lambda p) = [c]" "call_op c = UpdateFunctionCode"
        "call_args c = [Obj lamparams]" "updateFunctionCode_lamparams p = Inr lamparams"
      by blast
    with publish_updateFunctionCode [of p lamparams]
    show "\<exists>c. fst (updateFunctionCode lambda p) = [c] \<and> call_op c = UpdateFunctionCode \<and>
           has_field ''Publish'' (request_object c) \<and>
           get_field ''Publish'' (request_object c) = js_bool (publish p)"
      by simp
  qed
  have configured: "\<exists>c. fst (updateFunctionConfiguration lambda p) = [c] \<and>
      call_op c = UpdateFunctionConfiguration \<and>
      \<not> has_field ''Publish'' (request_object c)"
    using publish_updateFunctionConfiguration [of p]
    by (simp add: updateFunctionConfiguration_def request_def Let_def)
  have created: "\<exists>c \<in> set (calls (flush s3c lambda p)). call_op c = CreateFunction \<and>
         has_field ''Publish'' (request_object c) \<and>
         get_field ''Publish'' (request_object c) = js_bool (publish p) \<and>
         (truthy (get_field ''Publish'' (request_object c)) \<longleftrightarrow> publish p = Some True)"
    if h: "ListFunctions \<in> set (ops (flush s3c lambda p)) \<and>
      snd (hasLambdaFunction lambda (functionName p)) = Inr False"
  proof -
    from h have "CreateFunction \<in> set (ops (flush s3c lambda p))"
      using create_run [of s3c lambda p] by blast
    then obtain c where c: "c \<in> set (calls (flush s3c lambda p))"
      and op: "call_op c = CreateFunction"
      by (auto simp: ops_def)
    from publish_call [OF c] op c show ?thesis by blast
  qed
  have updated: "\<exists>c \<in> set (calls (flush s3c lambda p)). call_op c = UpdateFunctionCode \<and>
         has_field ''Publish'' (request_object c) \<and>
         get_field ''Publish'' (request_object c) = js_bool (publish p) \<and>
         (truthy (get_field ''Publish'' (request_object c)) \<longleftrightarrow> publish p = Some True)"
    if h: "ListFunctions \<in> set (ops (flush s3c lambda p)) \<and>
      snd (hasLambdaFunction lambda (functionName p)) = Inr True"
  proof -
    from h have "UpdateFunctionCode \<in> set (ops (flush s3c lambda p))"
      using update_run [of s3c lambda p] by blast
    then obtain c where c: "c \<in> set (calls (flush s3c lambda p))"
      and op: "call_op c = UpdateFunctionCode"
      by (auto simp: ops_def)
    from publish_call [OF c] op c show ?thesis by blast
  qed
  from issued sent configured created updated show ?thesis by blast
qed

theorem publish_flag_only_on_code_requests_witness:
  "code_update_call \<in> set (calls (flush s3_ok lambda_existing release_params)) \<and>
   call_op code_update_call = UpdateFunctionCode \<and>
   has_field ''Publish'' (request_object code_update_call) \<and>
   get_field ''Publish'' (request_object code_update_call) = Bool True \<and>
   truthy (get_field ''Publish'' (request_object code_update_call)) \<and>
   configuration_update_call \<in> set (calls (flush s3_ok lambda_existing release_params)) \<and>
   call_op configuration_update_call = UpdateFunctionConfiguration \<and>
   \<not> has_field ''Publish'' (request_object configuration_update_call) \<and>
   ListFunctions \<in> set (ops (flush s3_ok lambda_fresh release_params)) \<and>
   snd (hasLambdaFunction lambda_fresh (functionName release_params)) = Inr False \<and>
   publish release_params = Some True \<and>
   (\<exists>c \<in> set (calls (flush s3_ok lambda_fresh release_params)).
      call_op c = CreateFunction \<and> has_field ''Publish'' (request_object c) \<and>
      get_field ''Publish'' (request_object c) = Bool True \<and>
      truthy (get_field ''Publish'' (request_object c))) \<and>
   published_creation_call \<in> set (calls (flush s3_ok lambda_fresh release_params)) \<and>
   call_op published_creation_call = CreateFunction \<and>
   get_field ''Publish'' (request_object published_creation_call) = Bool True \<and>
   s3 release_params = Some artifacts \<and>
   (\<exists>c. fst (createFunction lambda_fresh release_params) = [c] \<and>
      call_op c = CreateFunction \<and> has_field ''Publish'' (request_object c) \<and>
      get_field ''Publish'' (request_object c) = Bool True)"
proof -
  note examples =
    zip_file_def artifacts_def deployed_def unrelated_def s3_ok_def basic_params_def
    lambda_existing_def lambda_fresh_def release_params_def code_update_call_def
    configuration_update_call_def published_creation_call_def
  have code: "code_update_call \<in> set (calls (flush s3_ok lambda_existing release_params))"
    by (simp add: run_defs examples)
  have conf: "configuration_update_call \<in> set (calls (flush s3_ok lambda_existing release_params))"
    by (simp add: run_defs examples)
  have made: "published_creation_call \<in> set (calls (flush s3_ok lambda_fresh release_params))"
    by (simp add: run_defs examples)
  have ops: "call_op code_update_call = UpdateFunctionCode"
    "call_op configuration_update_call = UpdateFunctionConfiguration"
    "call_op published_creation_call = CreateFunction"
    by (simp_all add: examples)
  have checked: "ListFunctions \<in> set (ops (flush s3_ok lambda_fresh release_params))"
    "snd (hasLambdaFunction lambda_fresh (functionName release_params)) = Inr False"
    by (simp_all add: run_defs examples)
  have flag: "js_bool (publish release_params) = Bool True" "publish release_params = Some True"
    by (simp_all add: examples js_bool_def)
  have loc: "s3 release_params = Some artifacts" by (simp add: examples)
  note existing = publish_flag_only_on_code_requests [of s3_ok lambda_existing release_params]
  note fresh = publish_flag_only_on_code_requests [of s3_ok lambda_fresh release_params]
  from existing code ops(1) flag
  have 1: "has_field ''Publish'' (request_object code_update_call) \<and>
    get_field ''Publish'' (request_object code_update_call) = Bool True \<and>
    truthy (get_field ''Publish'' (request_object code_update_call))"
    by (metis (no_types, lifting))
  from existing conf ops(2)
  have 2: "\<not> has_field ''Publish'' (request_object configuration_update_call)"
    by (metis (no_types, lifting) api_op.distinct)
  from fresh checked flag
  have 3: "\<exists>c \<in> set (calls (flush s3_ok lambda_fresh release_params)).
      call_op c = CreateFunction \<and> has_field ''Publish'' (request_object c) \<and>
      get_field ''Publish'' (request_object c) = Bool True \<and>
      truthy (get_field ''Publish'' (request_object c))"
    by (metis (no_types, lifting))
  from fresh made ops(3) flag
  have 4: "get_field ''Publish'' (request_object published_creation_call) = Bool True"
    by (metis (no_types, lifting))
  from fresh loc flag
  have 5: "\<exists>c. fst (createFunction lambda_fresh release_params) = [c] \<and>
      call_op c = CreateFunction \<and> has_field ''Publish'' (request_object c) \<and>
      get_field ''Publish'' (request_object c) = Bool True"
    by (metis (no_types, lifting) option.distinct(1))
  from code conf made ops checked flag(2) loc 1 2 3 4 5 show ?thesis by (intro conjI) blast+
qed

text \<open>
  C3. In a flush run with a non-empty \<open>params.alias\<close> whose create-or-update step resolved
  (with the value the source names \<open>upsertedFunction\<close>), \<open>getAlias\<close> is called next, with
  the function name and the alias name, and no earlier call of the run is an alias call.
  The alias is created only when \<open>getAlias\<close> resolves with no alias: then \<open>createAlias\<close> is
  called and ends the run, and when it resolves with an alias \<open>updateAlias\<close> is called and
  ends the run, in both cases with \<open>FunctionVersion\<close> equal to the \<open>Version\<close> of the value
  the create-or-update step resolved with. When \<open>getAlias\<close> rejects, which is how the
  platform answers for an alias that does not exist yet (\<open>ResourceNotFoundException\<close>),
  the \<open>then\<close> handler of \<open>upsertAlias\<close> with its \<open>if (!alias)\<close> branch is skipped: the
  rejected \<open>getAlias\<close> is the last call of the run, neither \<open>createAlias\<close> nor
  \<open>updateAlias\<close> is called, nothing is pushed downstream, and the run does not end
  successfully. So the alias that the documentation promises to create when it does not
  exist is not created.
\<close>

theorem alias_not_created_when_reading_it_is_rejected:
  assumes "file_p p = Some f" and "suffix ''.zip'' (path f)"
    and "truthy (js_str (alias_p p))"
    and "snd (upsertedFunction s3c lambda p) = Inr upserted"
  shows "(\<exists>get rest. calls (flush s3c lambda p) =
                        fst (upsertedFunction s3c lambda p) @ get # rest \<and>
            call_op get = GetAlias \<and>
            call_args get = [Obj [(''FunctionName'', js_str (functionName p)),
                                  (''Name'', js_str (alias_p p))]]) \<and>
         (\<forall>e. sdk_getAlias lambda (Obj [(''FunctionName'', js_str (functionName p)),
                                        (''Name'', js_str (alias_p p))]) = Inl e \<longrightarrow>
            (\<exists>get. calls (flush s3c lambda p) = fst (upsertedFunction s3c lambda p) @ [get] \<and>
               call_op get = GetAlias \<and> call_error get = Some e) \<and>
            CreateAlias \<notin> set (ops (flush s3c lambda p)) \<and>
            UpdateAlias \<notin> set (ops (flush s3c lambda p)) \<and>
            pushed (flush s3c lambda p) = [] \<and>
            callback (flush s3c lambda p) \<noteq> Called None) \<and>
         (sdk_getAlias lambda (Obj [(''FunctionName'', js_str (functionName p)),
                                    (''Name'', js_str (alias_p p))]) = Inr None \<longrightarrow>
            (\<exists>get c. calls (flush s3c lambda p) =
                        fst (upsertedFunction s3c lambda p) @ [get, c] \<and>
               call_op get = GetAlias \<and> call_op c = CreateAlias \<and>
               call_args c = [Obj [(''FunctionName'', js_str (functionName p)),
                                   (''FunctionVersion'', js_str (Version upserted)),
                                   (''Name'', js_str (alias_p p))]])) \<and>
         (\<forall>existing.
            sdk_getAlias lambda (Obj [(''FunctionName'', js_str (functionName p)),
                                      (''Name'', js_str (alias_p p))]) = Inr (Some existing) \<longrightarrow>
            (\<exists>get c. calls (flush s3c lambda p) =
                        fst (upsertedFunction s3c lambda p) @ [get, c] \<and>
               call_op get = GetAlias \<and> call_op c = UpdateAlias \<and>
               call_args c = [Obj [(''FunctionName'', js_str (functionName p)),
                                   (''FunctionVersion'', js_str (Version upserted)),
                                   (''Name'', js_str (alias_p p))]])) \<and>
         (\<forall>c \<in> set (fst (upsertedFunction s3c lambda p)).
            call_op c \<noteq> GetAlias \<and> call_op c \<noteq> CreateAlias \<and> call_op c \<noteq> UpdateAlias)"
proof -
  have "calls (flush s3c lambda p) = fst (flush_chain s3c lambda p)"
    using assms(1,2) by (rule calls_flush_valid)
  with assms(3,4) have cs: "calls (flush s3c lambda p) =
      fst (upsertedFunction s3c lambda p) @ fst (upsertAlias lambda (Version upserted) p)"
    by (simp add: fst_flush_chain)
  have resolved: "(\<exists>get rest. calls (flush s3c lambda p) =
                        fst (upsertedFunction s3c lambda p) @ get # rest \<and>
            call_op get = GetAlias \<and>
            call_args get = [Obj [(''FunctionName'', js_str (functionName p)),
                                  (''Name'', js_str (alias_p p))]]) \<and>
         (sdk_getAlias lambda (Obj [(''FunctionName'', js_str (functionName p)),
                                    (''Name'', js_str (alias_p p))]) = Inr None \<longrightarrow>
            (\<exists>get c. calls (flush s3c lambda p) =
                        fst (upsertedFunction s3c lambda p) @ [get, c] \<and>
               call_op get = GetAlias \<and> call_op c = CreateAlias \<and>
               call_args c = [Obj [(''FunctionName'', js_str (functionName p)),
                                   (''FunctionVersion'', js_str (Version upserted)),
                                   (''Name'', js_str (alias_p p))]])) \<and>
         (\<forall>existing.
            sdk_getAlias lambda (Obj [(''FunctionName'', js_str (functionName p)),
                                      (''Name'', js_str (alias_p p))]) = Inr (Some existing) \<longrightarrow>
            (\<exists>get c. calls (flush s3c lambda p) =
                        fst (upsertedFunction s3c lambda p) @ [get, c] \<and>
               call_op get = GetAlias \<and> call_op c = UpdateAlias \<and>
               call_args c = [Obj [(''FunctionName'', js_str (functionName p)),
                                   (''FunctionVersion'', js_str (Version upserted)),
                                   (''Name'', js_str (alias_p p))]])) \<and>
         (\<forall>c \<in> set (fst (upsertedFunction s3c lambda p)).
            call_op c \<noteq> GetAlias \<and> call_op c \<noteq> CreateAlias \<and> call_op c \<noteq> UpdateAlias)"
    unfolding cs fst_upsertAlias
    using ops_upsertedFunction [of _ s3c lambda p]
    by (auto simp: Let_def alias_lamparams_def split: sum.splits option.splits)
  have rejected: "(\<exists>get. calls (flush s3c lambda p) = fst (upsertedFunction s3c lambda p) @ [get] \<and>
               call_op get = GetAlias \<and> call_error get = Some e) \<and>
            CreateAlias \<notin> set (ops (flush s3c lambda p)) \<and>
            UpdateAlias \<notin> set (ops (flush s3c lambda p)) \<and>
            pushed (flush s3c lambda p) = [] \<and>
            callback (flush s3c lambda p) \<noteq> Called None"
    if e: "sdk_getAlias lambda (Obj [(''FunctionName'', js_str (functionName p)),
                                     (''Name'', js_str (alias_p p))]) = Inl e" for e
  proof -
    have settled: "snd (flush_chain s3c lambda p) = Inl e"
      using assms(3,4) e
      by (simp add: snd_flush_chain upsertAlias_def getAlias_def promise_simps Let_def)
    have "pushed (flush s3c lambda p) = []"
      using assms(1,2) settled by (simp add: pushed_flush)
    moreover have "callback (flush s3c lambda p) \<noteq> Called None"
      using callback_flush_done [OF assms(1,2), of s3c lambda] settled by simp
    moreover have "(\<exists>get. calls (flush s3c lambda p) =
                       fst (upsertedFunction s3c lambda p) @ [get] \<and>
              call_op get = GetAlias \<and> call_error get = Some e) \<and>
           CreateAlias \<notin> set (ops (flush s3c lambda p)) \<and>
           UpdateAlias \<notin> set (ops (flush s3c lambda p))"
      unfolding ops_def cs fst_upsertAlias
      using e
      by (auto simp: Let_def dest!: ops_upsertedFunction)
    ultimately show ?thesis by blast
  qed
  from resolved rejected show ?thesis by blast
qed

theorem alias_not_created_when_reading_it_is_rejected_witness:
  "file_p release_params = Some zip_file \<and> suffix ''.zip'' (path zip_file) \<and>
   truthy (js_str (alias_p release_params)) \<and>
   snd (upsertedFunction s3_ok lambda_first_release release_params) = Inr deployed \<and>
   sdk_getAlias lambda_first_release
     (Obj [(''FunctionName'', js_str (functionName release_params)),
           (''Name'', js_str (alias_p release_params))]) = Inl not_found \<and>
   ops (flush s3_ok lambda_first_release release_params) =
     [PutObject, ListFunctions, CreateFunction, GetAlias] \<and>
   CreateAlias \<notin> set (ops (flush s3_ok lambda_first_release release_params)) \<and>
   UpdateAlias \<notin> set (ops (flush s3_ok lambda_first_release release_params)) \<and>
   pushed (flush s3_ok lambda_first_release release_params) = [] \<and>
   callback (flush s3_ok lambda_first_release release_params) =
     Called (Some (PluginError ''gulp-lambda-deploy'' ''Cannot find alias'')) \<and>
   snd (upsertedFunction s3_ok lambda_fresh release_params) = Inr deployed \<and>
   sdk_getAlias lambda_fresh (Obj [(''FunctionName'', js_str (functionName release_params)),
                                   (''Name'', js_str (alias_p release_params))]) = Inr None \<and>
   (\<exists>get c. calls (flush s3_ok lambda_fresh release_params) =
              fst (upsertedFunction s3_ok lambda_fresh release_params) @ [get, c] \<and>
      call_op get = GetAlias \<and> call_op c = CreateAlias \<and>
      call_args c = [Obj [(''FunctionName'', js_str (functionName release_params)),
                          (''FunctionVersion'', js_str (Version deployed)),
                          (''Name'', js_str (alias_p release_params))]]) \<and>
   snd (upsertedFunction s3_ok lambda_existing release_params) = Inr deployed \<and>
   sdk_getAlias lambda_existing (Obj [(''FunctionName'', js_str (functionName release_params)),
                                      (''Name'', js_str (alias_p release_params))]) =
     Inr (Some \<lparr>AliasArn = Some ''arn:alias''\<rparr>) \<and>
   (\<exists>get c. calls (flush s3_ok lambda_existing release_params) =
              fst (upsertedFunction s3_ok lambda_existing release_params) @ [get, c] \<and>
      call_op get = GetAlias \<and> call_op c = UpdateAlias \<and>
      call_args c = [Obj [(''FunctionName'', js_str (functionName release_params)),
                          (''FunctionVersion'', js_str (Version deployed)),
                          (''Name'', js_str (alias_p release_params))]])"
proof -
  note examples =
    zip_file_def artifacts_def deployed_def unrelated_def not_found_def s3_ok_def
    basic_params_def lambda_existing_def lambda_fresh_def lambda_first_release_def
    release_params_def
  have f: "file_p release_params = Some zip_file" "suffix ''.zip'' (path zip_file)"
    by (simp_all add: examples suffix_to_prefix)
  have named: "truthy (js_str (alias_p release_params))"
    by (simp add: examples js_str_def)
  have first: "snd (upsertedFunction s3_ok lambda_first_release release_params) = Inr deployed"
    by (simp add: run_defs examples)
  have created: "snd (upsertedFunction s3_ok lambda_fresh release_params) = Inr deployed"
    by (simp add: run_defs examples)
  have updated: "snd (upsertedFunction s3_ok lambda_existing release_params) = Inr deployed"
    by (simp add: run_defs examples)
  have unread: "sdk_getAlias lambda_first_release
      (Obj [(''FunctionName'', js_str (functionName release_params)),
            (''Name'', js_str (alias_p release_params))]) = Inl not_found"
    by (simp add: examples)
  have missing: "sdk_getAlias lambda_fresh
      (Obj [(''FunctionName'', js_str (functionName release_params)),
            (''Name'', js_str (alias_p release_params))]) = Inr None"
    by (simp add: examples)
  have found: "sdk_getAlias lambda_existing
      (Obj [(''FunctionName'', js_str (functionName release_params)),
            (''Name'', js_str (alias_p release_params))]) =
     Inr (Some \<lparr>AliasArn = Some ''arn:alias''\<rparr>)"
    by (simp add: examples)
  have run: "ops (flush s3_ok lambda_first_release release_params) =
     [PutObject, ListFunctions, CreateFunction, GetAlias]"
    "callback (flush s3_ok lambda_first_release release_params) =
     Called (Some (PluginError ''gulp-lambda-deploy'' ''Cannot find alias''))"
    by (simp_all add: run_defs examples)
  note release = alias_not_created_when_reading_it_is_rejected [OF f named first]
  note fresh = alias_not_created_when_reading_it_is_rejected [OF f named created]
  note existing = alias_not_created_when_reading_it_is_rejected [OF f named updated]
  from release unread
  have 0: "CreateAlias \<notin> set (ops (flush s3_ok lambda_first_release release_params)) \<and>
   UpdateAlias \<notin> set (ops (flush s3_ok lambda_first_release release_params)) \<and>
   pushed (flush s3_ok lambda_first_release release_params) = []"
    by blast
  from fresh missing
  have 1: "\<exists>get c. calls (flush s3_ok lambda_fresh release_params) =
              fst (upsertedFunction s3_ok lambda_fresh release_params) @ [get, c] \<and>
      call_op get = GetAlias \<and> call_op c = CreateAlias \<and>
      call_args c = [Obj [(''FunctionName'', js_str (functionName release_params)),
                          (''FunctionVersion'', js_str (Version deployed)),
                          (''Name'', js_str (alias_p release_params))]]"
    by blast
  from existing found
  have 2: "\<exists>get c. calls (flush s3_ok lambda_existing release_params) =
              fst (upsertedFunction s3_ok lambda_existing release_params) @ [get, c] \<and>
      call_op get = GetAlias \<and> call_op c = UpdateAlias \<and>
      call_args c = [Obj [(''FunctionName'', js_str (functionName release_params)),
                          (''FunctionVersion'', js_str (Version deployed)),
                          (''Name'', js_str (alias_p release_params))]]"
    by blast
  from f named first created updated unread missing found run 0 1 2
  show ?thesis by (intro conjI) blast+
qed

text \<open>
  C9. A flush run pushes the buffered file downstream exactly once, and calls the stream
  callback without an error, when every deploy step resolves (every call issued resolved,
  and the list response has its functions). It never pushes when a step rejects. When the
  rejection has a non-empty message (the error of an SDK call, or the \<open>TypeError\<close> of the
  existence check), the stream callback receives a \<open>PluginError\<close> of the plugin with that
  message. When the rejection of an SDK call has no message, or an empty one,
  \<open>gulpError(err.message)\<close> throws \<open>Missing error message\<close> inside \<open>done\<close>, within the
  \<open>catch\<close> handler of the chain: the stream callback is never called, and that error is
  left uncaught. Nothing is ever pushed twice.
\<close>

theorem rejection_without_message_is_never_reported:
  "(\<forall>f. file_p p = Some f \<and> suffix ''.zip'' (path f) \<and>
        (\<forall>c \<in> set (calls (flush s3c lambda p)). call_error c = None) \<and>
        (\<forall>res. sdk_listFunctions lambda (Obj []) = Inr res \<longrightarrow> Functions res \<noteq> None) \<longrightarrow>
        pushed (flush s3c lambda p) = [Some f] \<and>
        callback (flush s3c lambda p) = Called None \<and>
        uncaught (flush s3c lambda p) = None) \<and>
   (\<forall>c \<in> set (calls (flush s3c lambda p)). \<forall>e m.
        call_error c = Some e \<and> message e = Some m \<and> m \<noteq> [] \<longrightarrow>
        pushed (flush s3c lambda p) = [] \<and>
        callback (flush s3c lambda p) = Called (Some (PluginError ''gulp-lambda-deploy'' m)) \<and>
        uncaught (flush s3c lambda p) = None) \<and>
   (\<forall>c \<in> set (calls (flush s3c lambda p)). \<forall>e.
        call_error c = Some e \<and> (message e = None \<or> message e = Some []) \<longrightarrow>
        pushed (flush s3c lambda p) = [] \<and>
        callback (flush s3c lambda p) = NotCalled \<and>
        uncaught (flush s3c lambda p) = Some (Error ''Missing error message'')) \<and>
   (\<forall>res. ListFunctions \<in> set (ops (flush s3c lambda p)) \<and>
        sdk_listFunctions lambda (Obj []) = Inr res \<and> Functions res = None \<longrightarrow>
        pushed (flush s3c lambda p) = [] \<and>
        callback (flush s3c lambda p) =
          Called (Some (PluginError ''gulp-lambda-deploy''
                          ''Cannot read properties of undefined (reading 'length')''))) \<and>
   length (pushed (flush s3c lambda p)) \<le> 1"
proof -
  have resolved: "pushed (flush s3c lambda p) = [Some f] \<and>
        callback (flush s3c lambda p) = Called None \<and>
        uncaught (flush s3c lambda p) = None"
    if h: "file_p p = Some f \<and> suffix ''.zip'' (path f) \<and>
        (\<forall>c \<in> set (calls (flush s3c lambda p)). call_error c = None) \<and>
        (\<forall>res. sdk_listFunctions lambda (Obj []) = Inr res \<longrightarrow> Functions res \<noteq> None)"
    for f
  proof -
    from h have f: "file_p p = Some f" "suffix ''.zip'' (path f)" by simp_all
    from h have "accountable (flush_chain s3c lambda p)"
      by (intro accountable_flush_chain) auto
    moreover from h have "\<forall>c \<in> set (fst (flush_chain s3c lambda p)). call_error c = None"
      by (simp add: calls_flush)
    ultimately obtain u where "snd (flush_chain s3c lambda p) = Inr u"
      by (cases "snd (flush_chain s3c lambda p)") (auto simp: accountable_def)
    then show ?thesis by (simp add: flush_chain_settled [OF f])
  qed
  have reported: "pushed (flush s3c lambda p) = [] \<and>
        callback (flush s3c lambda p) = Called (Some (PluginError ''gulp-lambda-deploy'' m)) \<and>
        uncaught (flush s3c lambda p) = None"
    if "c \<in> set (calls (flush s3c lambda p))"
      and "call_error c = Some e \<and> message e = Some m \<and> m \<noteq> []" for c e m
    using rejected_call_settles_run [of c s3c lambda p e] that
    by (simp add: cb_gulpError_message)
  have unreported: "pushed (flush s3c lambda p) = [] \<and>
        callback (flush s3c lambda p) = NotCalled \<and>
        uncaught (flush s3c lambda p) = Some (Error ''Missing error message'')"
    if "c \<in> set (calls (flush s3c lambda p))"
      and "call_error c = Some e \<and> (message e = None \<or> message e = Some [])" for c e
    using rejected_call_settles_run [of c s3c lambda p e] that
    by (simp add: cb_gulpError_no_message)
  have unlisted: "pushed (flush s3c lambda p) = [] \<and>
        callback (flush s3c lambda p) =
          Called (Some (PluginError ''gulp-lambda-deploy''
                          ''Cannot read properties of undefined (reading 'length')''))"
    if h: "ListFunctions \<in> set (ops (flush s3c lambda p)) \<and>
        sdk_listFunctions lambda (Obj []) = Inr res \<and> Functions res = None" for res
  proof -
    from h have "calls (flush s3c lambda p) \<noteq> []" by (auto simp: ops_def)
    from calls_flush_nonempty [OF this] obtain f
      where f: "file_p p = Some f" "suffix ''.zip'' (path f)"
        and eq: "calls (flush s3c lambda p) = fst (flush_chain s3c lambda p)"
      by blast
    from h have rej: "snd (hasLambdaFunction lambda (functionName p)) =
        Inl (TypeError ''Cannot read properties of undefined (reading 'length')'')"
      by (simp add: snd_hasLambdaFunction)
    from h have "ListFunctions \<in> set (map call_op (fst (flush_chain s3c lambda p)))"
      by (simp add: ops_def eq)
    with rej have "snd (flush_chain s3c lambda p) =
        Inl (TypeError ''Cannot read properties of undefined (reading 'length')'')"
      using existence_check_rejected by blast
    then show ?thesis
      by (simp add: flush_chain_settled [OF f] cb_gulpError_message)
  qed
  have once: "length (pushed (flush s3c lambda p)) \<le> 1"
    by (simp add: pushed_flush split: option.splits sum.splits)
  from resolved reported unreported unlisted once show ?thesis by blast
qed

theorem rejection_without_message_is_never_reported_witness:
  "\<lparr>call_op = UpdateFunctionCode,
     call_args = [Obj [(''FunctionName'', Str ''resize''), (''Publish'', Undefined),
                       (''ZipFile'', FileContents (BufferContents ''PK''))]],
     call_error = Some unknown_error\<rparr>
     \<in> set (calls (flush s3_ok lambda_code_rejected_silently basic_params)) \<and>
   message unknown_error = None \<and>
   pushed (flush s3_ok lambda_code_rejected_silently basic_params) = [] \<and>
   callback (flush s3_ok lambda_code_rejected_silently basic_params) = NotCalled \<and>
   uncaught (flush s3_ok lambda_code_rejected_silently basic_params) =
     Some (Error ''Missing error message'') \<and>
   \<lparr>call_op = UpdateFunctionCode,
     call_args = [Obj [(''FunctionName'', Str ''resize''), (''Publish'', Undefined),
                       (''ZipFile'', FileContents (BufferContents ''PK''))]],
     call_error = Some empty_error\<rparr>
     \<in> set (calls (flush s3_ok lambda_code_rejected_emptily basic_params)) \<and>
   message empty_error = Some [] \<and>
   callback (flush s3_ok lambda_code_rejected_emptily basic_params) = NotCalled \<and>
   \<lparr>call_op = UpdateFunctionCode,
     call_args = [Obj [(''FunctionName'', Str ''resize''), (''Publish'', Undefined),
                       (''ZipFile'', FileContents (BufferContents ''PK''))]],
     call_error = Some throttled\<rparr>
     \<in> set (calls (flush s3_ok lambda_code_rejected basic_params)) \<and>
   message throttled = Some ''Rate exceeded'' \<and>
   pushed (flush s3_ok lambda_code_rejected basic_params) = [] \<and>
   callback (flush s3_ok lambda_code_rejected basic_params) =
     Called (Some (PluginError ''gulp-lambda-deploy'' ''Rate exceeded'')) \<and>
   file_p release_params = Some zip_file \<and> suffix ''.zip'' (path zip_file) \<and>
   list_all (\<lambda>c. call_error c = None) (calls (flush s3_ok lambda_existing release_params)) \<and>
   sdk_listFunctions lambda_existing (Obj []) = Inr \<lparr>Functions = Some [unrelated, deployed]\<rparr> \<and>
   pushed (flush s3_ok lambda_existing release_params) = [Some zip_file] \<and>
   callback (flush s3_ok lambda_existing release_params) = Called None \<and>
   ListFunctions \<in> set (ops (flush s3_ok lambda_unlisted basic_params)) \<and>
   sdk_listFunctions lambda_unlisted (Obj []) = Inr \<lparr>Functions = None\<rparr> \<and>
   pushed (flush s3_ok lambda_unlisted basic_params) = [] \<and>
   callback (flush s3_ok lambda_unlisted basic_params) =
     Called (Some (PluginError ''gulp-lambda-deploy''
                     ''Cannot read properties of undefined (reading 'length')''))"
proof -
  note examples =
    zip_file_def artifacts_def deployed_def unrelated_def throttled_def unknown_error_def
    empty_error_def s3_ok_def basic_params_def lambda_existing_def lambda_code_rejected_def
    lambda_code_rejected_silently_def lambda_code_rejected_emptily_def lambda_unlisted_def
    release_params_def
  let ?call = "\<lambda>e. \<lparr>call_op = UpdateFunctionCode,
     call_args = [Obj [(''FunctionName'', Str ''resize''), (''Publish'', Undefined),
                       (''ZipFile'', FileContents (BufferContents ''PK''))]],
     call_error = Some e\<rparr>"
  have silent: "?call unknown_error
      \<in> set (calls (flush s3_ok lambda_code_rejected_silently basic_params))"
    by (simp add: run_defs examples)
  have empty: "?call empty_error
      \<in> set (calls (flush s3_ok lambda_code_rejected_emptily basic_params))"
    by (simp add: run_defs examples)
  have loud: "?call throttled \<in> set (calls (flush s3_ok lambda_code_rejected basic_params))"
    by (simp add: run_defs examples)
  have msgs: "message unknown_error = None" "message empty_error = Some []"
    "message throttled = Some ''Rate exceeded''"
    by (simp_all add: examples)
  have f: "file_p release_params = Some zip_file" "suffix ''.zip'' (path zip_file)"
    by (simp_all add: examples suffix_to_prefix)
  have ok: "list_all (\<lambda>c. call_error c = None)
              (calls (flush s3_ok lambda_existing release_params))"
    by (simp add: run_defs examples)
  then have resolved:
    "\<forall>c \<in> set (calls (flush s3_ok lambda_existing release_params)). call_error c = None"
    by (simp add: list_all_iff)
  have response: "sdk_listFunctions lambda_existing (Obj []) =
      Inr \<lparr>Functions = Some [unrelated, deployed]\<rparr>"
    by (simp add: lambda_existing_def)
  then have listed: "\<forall>res. sdk_listFunctions lambda_existing (Obj []) = Inr res \<longrightarrow>
      Functions res \<noteq> None"
    by auto
  have mem: "ListFunctions \<in> set (ops (flush s3_ok lambda_unlisted basic_params))"
    by (simp add: run_defs examples)
  have unlisted: "sdk_listFunctions lambda_unlisted (Obj []) = Inr \<lparr>Functions = None\<rparr>"
    by (simp add: lambda_unlisted_def lambda_existing_def)
  have fn: "Functions \<lparr>Functions = None\<rparr> = None" by simp
  note quiet = rejection_without_message_is_never_reported
      [of basic_params s3_ok lambda_code_rejected_silently]
  note blank = rejection_without_message_is_never_reported
      [of basic_params s3_ok lambda_code_rejected_emptily]
  note failure = rejection_without_message_is_never_reported
      [of basic_params s3_ok lambda_code_rejected]
  note success = rejection_without_message_is_never_reported
      [of release_params s3_ok lambda_existing]
  note broken = rejection_without_message_is_never_reported
      [of basic_params s3_ok lambda_unlisted]
  have sel: "call_error (?call e) = Some e" for e by simp
  from quiet silent msgs(1) sel [of unknown_error]
  have 1: "pushed (flush s3_ok lambda_code_rejected_silently basic_params) = [] \<and>
    callback (flush s3_ok lambda_code_rejected_silently basic_params) = NotCalled \<and>
    uncaught (flush s3_ok lambda_code_rejected_silently basic_params) =
      Some (Error ''Missing error message'')"
    by blast
  from blank empty msgs(2) sel [of empty_error]
  have 2: "callback (flush s3_ok lambda_code_rejected_emptily basic_params) = NotCalled"
    by blast
  have nonempty: "''Rate exceeded'' \<noteq> []" by simp
  from failure loud msgs(3) sel [of throttled] nonempty
  have 3: "pushed (flush s3_ok lambda_code_rejected basic_params) = [] \<and>
    callback (flush s3_ok lambda_code_rejected basic_params) =
      Called (Some (PluginError ''gulp-lambda-deploy'' ''Rate exceeded''))"
    by blast
  from success f resolved listed
  have 4: "pushed (flush s3_ok lambda_existing release_params) = [Some zip_file] \<and>
           callback (flush s3_ok lambda_existing release_params) = Called None"
    by blast
  from broken mem unlisted fn
  have 5: "pushed (flush s3_ok lambda_unlisted basic_params) = [] \<and>
           callback (flush s3_ok lambda_unlisted basic_params) =
             Called (Some (PluginError ''gulp-lambda-deploy''
                     ''Cannot read properties of undefined (reading 'length')''))"
    by blast
  from silent empty loud msgs f ok response mem unlisted 1 2 3 4 5
  show ?thesis by (intro conjI) blast+
qed

end
